theory Spec2Isabelle
  imports Complex_Main "HOL-Library.Log_Nat"
begin

section \<open>Heating values of C-H-O fuels (notebook \<open>2_5_Heating_value\<close>)\<close>

text \<open>
  The notebook computes lower and higher heating values by sequencing calls into the
  Cantera library. Two things are outside the notebook and are parameters of the model:
  the arithmetic on Python floats, and the values the library reports.
\<close>

subsection \<open>Arithmetic\<close>

text \<open>
  The four operations the notebook uses and the reading of a decimal literal. The
  function \<open>heating_values\<close> below is written against this record, so that what is
  proved for every arithmetic holds for binary64 in particular.
\<close>

record 'n arith =
  fadd :: "'n \<Rightarrow> 'n \<Rightarrow> 'n"
  fsub :: "'n \<Rightarrow> 'n \<Rightarrow> 'n"
  fmul :: "'n \<Rightarrow> 'n \<Rightarrow> 'n"
  fdiv :: "'n \<Rightarrow> 'n \<Rightarrow> 'n"
  lit :: "rat \<Rightarrow> 'n"

text \<open>
  Python floats are IEEE binary64 numbers. Every finite binary64 number is a rational, and
  each operation returns the exact result rounded to the nearest number with a 53-bit
  significand, a tie going to the even significand. \<open>float_exp q\<close> is the exponent of
  the leading bit of \<open>q\<close>. The exponent range is not bounded here: overflow, subnormal
  numbers, infinities, NaN and the result of a division by zero are outside this model.
\<close>

definition round_even :: "rat \<Rightarrow> int" where
  "round_even q =
     (let f = \<lfloor>q\<rfloor>; r = q - of_int f
      in if r < 1 / 2 then f
         else if 1 / 2 < r then f + 1
         else if even f then f else f + 1)"

definition float_exp :: "rat \<Rightarrow> int" where
  "float_exp q =
     (let (n, d) = quotient_of \<bar>q\<bar>;
          k = int (floorlog 2 (nat n)) - int (floorlog 2 (nat d))
      in if 2 powi k \<le> \<bar>q\<bar> then k else k - 1)"

definition round53 :: "rat \<Rightarrow> rat" where
  "round53 q =
     (if q = 0 then 0
      else let e = float_exp q - 52
           in sgn q * of_int (round_even (\<bar>q\<bar> / 2 powi e)) * 2 powi e)"

definition binary64 :: "rat arith" where
  "binary64 =
     \<lparr>fadd = (\<lambda>a b. round53 (a + b)), fsub = (\<lambda>a b. round53 (a - b)),
      fmul = (\<lambda>a b. round53 (a * b)), fdiv = (\<lambda>a b. round53 (a / b)),
      lit = round53\<rparr>"

text \<open>
  The binary64 number that Python prints as the decimal \<open>m \<times> 10\<^sup>-\<^sup>k\<close>:
  \<open>dec64 29815 2\<close> is the float \<open>298.15\<close>.
\<close>

definition dec64 :: "int \<Rightarrow> nat \<Rightarrow> rat" where
  "dec64 m k = round53 (of_int m / 10 ^ k)"

subsection \<open>The library interface\<close>

text \<open>
  What the notebook asks of Cantera. \<open>'c\<close> is the library's representation of a
  composition, \<open>'w\<close> the state of the \<open>Water()\<close> object, \<open>'e\<close> the exceptions the
  library raises. Method calls and setters that parse names or compositions may raise;
  the property reads are total.
  \<^item> \<open>ct_species_index\<close>: \<open>species_index(name)\<close>;
  \<^item> \<open>ct_n_atoms\<close>: \<open>n_atoms(species, element)\<close>;
  \<^item> \<open>ct_molecular_weights\<close>: the array \<open>molecular_weights\<close>, by index;
  \<^item> \<open>ct_mole_fractions\<close>: the composition stored when \<open>X\<close> is set from a dictionary
    of relative mole numbers;
  \<^item> \<open>ct_equivalence_ratio\<close>: the composition \<open>set_equivalence_ratio(phi, fuel, oxidizer)\<close>
    stores;
  \<^item> \<open>ct_mass_fractions\<close>: the array \<open>Y\<close> of a composition, by index;
  \<^item> \<open>ct_enthalpy_mass\<close>: \<open>enthalpy_mass\<close> at a temperature, pressure and composition;
  \<^item> \<open>ct_water_TX\<close>: the state of the water object after \<open>water.TX = T, X\<close>;
  \<^item> \<open>ct_water_h\<close>: \<open>water.h\<close> in a state.
\<close>

record ('n, 'c, 'w, 'e) cantera =
  ct_one_atm :: 'n
  ct_species_index :: "string \<Rightarrow> 'e + nat"
  ct_n_atoms :: "string \<Rightarrow> string \<Rightarrow> 'e + 'n"
  ct_molecular_weights :: "nat \<Rightarrow> 'n"
  ct_mole_fractions :: "(string \<times> 'n) list \<Rightarrow> 'e + 'c"
  ct_equivalence_ratio :: "'n \<Rightarrow> string \<Rightarrow> string \<Rightarrow> 'e + 'c"
  ct_mass_fractions :: "'c \<Rightarrow> nat \<Rightarrow> 'n"
  ct_enthalpy_mass :: "'n \<Rightarrow> 'n \<Rightarrow> 'c \<Rightarrow> 'n"
  ct_water_TX :: "'n \<Rightarrow> 'n \<Rightarrow> 'e + 'w"
  ct_water_h :: "'w \<Rightarrow> 'n"

text \<open>
  The thermochemical state of a \<open>Solution\<close> object: temperature, pressure, composition.
  The notebook's two global objects, \<open>gas\<close> and \<open>water\<close>, are the state the function
  mutates.
\<close>

record ('n, 'c) solution =
  sol_T :: 'n
  sol_P :: 'n
  sol_X :: 'c

record ('n, 'c, 'w) globals =
  gas :: "('n, 'c) solution"
  water :: 'w

text \<open>An exception ends the evaluation: the rest of the body is skipped.\<close>

definition and_then :: "'e + 'a \<Rightarrow> ('a \<Rightarrow> 'e + 'b) \<Rightarrow> 'e + 'b" where
  "and_then m f = (case m of Inl e \<Rightarrow> Inl e | Inr v \<Rightarrow> f v)"

text \<open>
  The setters, as Cantera's Python layer defines them: a \<open>None\<close> in the place of the
  temperature or the pressure keeps the current value; \<open>TP\<close> keeps the composition;
  \<open>TPX\<close> stores the mole fractions and then sets temperature and pressure;
  \<open>set_equivalence_ratio\<close> changes the composition, holding temperature and pressure.
  The notebook relies on this: it sets the products "without changing the pressure and
  temperature" by \<open>gas1.TPX = None, None, X_prod\<close>.
\<close>

definition TP_set :: "'n option \<Rightarrow> 'n option \<Rightarrow> ('n, 'c) solution \<Rightarrow> ('n, 'c) solution" where
  "TP_set T P g =
     g\<lparr>sol_T := (case T of None \<Rightarrow> sol_T g | Some t \<Rightarrow> t),
       sol_P := (case P of None \<Rightarrow> sol_P g | Some p \<Rightarrow> p)\<rparr>"

definition TPX_set ::
  "('n, 'c, 'w, 'e) cantera \<Rightarrow> 'n option \<Rightarrow> 'n option \<Rightarrow> (string \<times> 'n) list \<Rightarrow>
   ('n, 'c) solution \<Rightarrow> 'e + ('n, 'c) solution" where
  "TPX_set L T P X g =
     and_then (ct_mole_fractions L X) (\<lambda>c. Inr (TP_set T P (g\<lparr>sol_X := c\<rparr>)))"

definition set_equivalence_ratio ::
  "('n, 'c, 'w, 'e) cantera \<Rightarrow> 'n \<Rightarrow> string \<Rightarrow> string \<Rightarrow>
   ('n, 'c) solution \<Rightarrow> 'e + ('n, 'c) solution" where
  "set_equivalence_ratio L phi fuel oxidizer g =
     and_then (ct_equivalence_ratio L phi fuel oxidizer) (\<lambda>c. Inr (g\<lparr>sol_X := c\<rparr>))"

definition enthalpy_mass :: "('n, 'c, 'w, 'e) cantera \<Rightarrow> ('n, 'c) solution \<Rightarrow> 'n" where
  "enthalpy_mass L g = ct_enthalpy_mass L (sol_T g) (sol_P g) (sol_X g)"

definition mass_fraction_Y :: "('n, 'c, 'w, 'e) cantera \<Rightarrow> ('n, 'c) solution \<Rightarrow> nat \<Rightarrow> 'n" where
  "mass_fraction_Y L g k = ct_mass_fractions L (sol_X g) k"

subsection \<open>The function \<open>heating_values\<close>\<close>

text \<open>The reference temperature \<open>T_ref = 298.15\<close> and the oxidizer string.\<close>

definition T_ref :: "'n arith \<Rightarrow> 'n" where
  "T_ref A = lit A (29815 / 100)"

definition air :: string where
  "air = ''O2:1.0 N2:3.76''"

text \<open>
  \<open>a = x + y/4. - z/2.\<close>, then \<open>N_CO2 = x\<close>, \<open>N_H2O = y/2.\<close>, \<open>N_N2 = 3.76*a\<close>
  (the same four lines in cell 7 and in the function).
\<close>

definition stoich_a :: "'n arith \<Rightarrow> 'n \<Rightarrow> 'n \<Rightarrow> 'n \<Rightarrow> 'n" where
  "stoich_a A x y z = fsub A (fadd A x (fdiv A y (lit A 4))) (fdiv A z (lit A 2))"

definition product_moles :: "'n arith \<Rightarrow> 'n \<Rightarrow> 'n \<Rightarrow> 'n \<Rightarrow> 'n \<times> 'n \<times> 'n" where
  "product_moles A x y z =
     (let a = stoich_a A x y z;
          N_CO2 = x;
          N_H2O = fdiv A y (lit A 2);
          N_N2 = fmul A (lit A (376 / 100)) a
      in (N_CO2, N_H2O, N_N2))"

text \<open>
  The first two statements: \<open>gas.TP = T_ref, P_ref\<close> with \<open>P_ref = ct.one_atm\<close>, and
  \<open>gas.set_equivalence_ratio(1.0, fuel, air)\<close>.
\<close>

definition set_reactants ::
  "'n arith \<Rightarrow> ('n, 'c, 'w, 'e) cantera \<Rightarrow> string \<Rightarrow> ('n, 'c) solution \<Rightarrow>
   'e + ('n, 'c) solution" where
  "set_reactants A L fuel g =
     (let P_ref = ct_one_atm L
      in set_equivalence_ratio L (lit A 1) fuel air (TP_set (Some (T_ref A)) (Some P_ref) g))"

text \<open>
  From \<open>x = gas.n_atoms(fuel,'C')\<close> to \<open>gas.TPX = None, None, X_prod\<close>: the atom counts of
  the fuel, the product mole numbers, the dictionary \<open>X_prod\<close> and the setting of the
  product composition. The result carries \<open>N_H2O\<close>, which the function uses again for the
  water correction.
\<close>

definition set_products ::
  "'n arith \<Rightarrow> ('n, 'c, 'w, 'e) cantera \<Rightarrow> string \<Rightarrow> ('n, 'c) solution \<Rightarrow>
   'e + ('n \<times> ('n, 'c) solution)" where
  "set_products A L fuel g =
     and_then (ct_n_atoms L fuel ''C'') (\<lambda>x.
     and_then (ct_n_atoms L fuel ''H'') (\<lambda>y.
     and_then (ct_n_atoms L fuel ''O'') (\<lambda>z.
       case product_moles A x y z of (N_CO2, N_H2O, N_N2) \<Rightarrow>
         let X_prod = [(''CO2'', N_CO2), (''H2O'', N_H2O), (''N2'', N_N2)]
         in and_then (TPX_set L None None X_prod g) (\<lambda>g'. Inr (N_H2O, g')))))"

text \<open>
  The enthalpy of vaporization: \<open>water.TX = T_ref, 0.0\<close>, \<open>h_liq = water.h\<close>,
  \<open>water.TX = T_ref, 1.0\<close>, \<open>h_gas = water.h\<close>, \<open>h_fg = h_gas - h_liq\<close>. The water object
  is left in the second state.
\<close>

definition vaporization ::
  "'n arith \<Rightarrow> ('n, 'c, 'w, 'e) cantera \<Rightarrow> 'e + ('n \<times> 'w)" where
  "vaporization A L =
     and_then (ct_water_TX L (T_ref A) (lit A 0)) (\<lambda>w0.
       let h_liq = ct_water_h L w0
       in and_then (ct_water_TX L (T_ref A) (lit A 1)) (\<lambda>w1.
            let h_gas = ct_water_h L w1;
                h_fg = fsub A h_gas h_liq
            in Inr (h_fg, w1)))"

text \<open>
  The whole function, in the order of the source. It returns the four heating values and
  the globals as it leaves them, or the exception that ended it (the state in which an
  exception leaves the globals is not part of the result). The function has no \<open>raise\<close>,
  \<open>try\<close> or \<open>assert\<close>; its divisions are by a literal or by an element of a numpy array,
  which does not raise on zero, so \<open>fdiv\<close> always returns.
\<close>

definition heating_values ::
  "'n arith \<Rightarrow> ('n, 'c, 'w, 'e) cantera \<Rightarrow> string \<Rightarrow> ('n, 'c, 'w) globals \<Rightarrow>
   'e + (('n \<times> 'n \<times> 'n \<times> 'n) \<times> ('n, 'c, 'w) globals)" where
  "heating_values A L fuel s =
     and_then (set_reactants A L fuel (gas s)) (\<lambda>g1.
     and_then (ct_species_index L fuel) (\<lambda>k.
       let Y_fuel_reac = mass_fraction_Y L g1 k;
           h_reac_mass = enthalpy_mass L g1
       in
     and_then (set_products A L fuel g1) (\<lambda>(N_H2O, g2).
       let h_prod_mass = enthalpy_mass L g2;
           lhv_mass = fdiv A (fsub A h_reac_mass h_prod_mass) Y_fuel_reac
       in
     and_then (ct_species_index L fuel) (\<lambda>k1.
       let lhv_mole = fmul A lhv_mass (ct_molecular_weights L k1)
       in
     and_then (vaporization A L) (\<lambda>(h_fg, w).
     and_then (ct_species_index L ''H2O'') (\<lambda>kw.
     and_then (ct_species_index L fuel) (\<lambda>k2.
       let m_h2o = fdiv A (fmul A N_H2O (ct_molecular_weights L kw)) (ct_molecular_weights L k2);
           hhv_mass = fadd A lhv_mass (fmul A m_h2o h_fg)
       in
     and_then (ct_species_index L fuel) (\<lambda>k3.
       let hhv_mole = fmul A hhv_mass (ct_molecular_weights L k3)
       in Inr ((lhv_mass, lhv_mole, hhv_mass, hhv_mole), \<lparr>gas = g2, water = w\<rparr>)))))))))"

subsection \<open>The worked example for propane (cells 10 to 15)\<close>

text \<open>
  Cell 10: \<open>lhv_mass = (h_reac_mass - h_prod_mass) / Y_C3H8_reac\<close>, then
  \<open>lhv_mass = lhv_mass / 1000.\<close>. Cell 14: \<open>m_h2o = N_H2O * MW[H2O] / MW[C3H8]\<close>.
  Cell 15: \<open>hhv_mass = lhv_mass + m_h2o*h_fg\<close>, with the \<open>h_fg\<close> of cell 13 in kJ/kg.
\<close>

definition lhv_mass_cell :: "'n arith \<Rightarrow> 'n \<Rightarrow> 'n \<Rightarrow> 'n \<Rightarrow> 'n" where
  "lhv_mass_cell A h_reac_mass h_prod_mass Y_C3H8_reac =
     (let lhv_mass = fdiv A (fsub A h_reac_mass h_prod_mass) Y_C3H8_reac
      in fdiv A lhv_mass (lit A 1000))"

definition m_h2o_cell :: "'n arith \<Rightarrow> 'n \<Rightarrow> 'n \<Rightarrow> 'n \<Rightarrow> 'n" where
  "m_h2o_cell A N_H2O MW_H2O MW_C3H8 = fdiv A (fmul A N_H2O MW_H2O) MW_C3H8"

definition hhv_mass_cell :: "'n arith \<Rightarrow> 'n \<Rightarrow> 'n \<Rightarrow> 'n \<Rightarrow> 'n" where
  "hhv_mass_cell A lhv_mass m_h2o h_fg = fadd A lhv_mass (fmul A m_h2o h_fg)"

subsection \<open>The combustion equation\<close>

text \<open>
  The two sides of \<open>C\<^sub>xH\<^sub>yO\<^sub>z + a (O\<^sub>2 + 3.76 N\<^sub>2) \<rightarrow> x CO\<^sub>2 + (y/2) H\<^sub>2O + 3.76 a N\<^sub>2\<close>
  as lists of species with their mole numbers; a species is given by its atoms per
  molecule. These follow the equation as the notebook and the specification write it, to be
  compared with what the code computes: the reactant side takes the coefficient \<open>a\<close> and
  holds \<open>3.76 a\<close> moles of nitrogen, with the decimal number 3.76; the product side takes
  the three mole numbers. Counting atoms is exact arithmetic on these numbers.
\<close>

type_synonym formula = "string \<Rightarrow> rat"

definition CHO :: "rat \<Rightarrow> rat \<Rightarrow> rat \<Rightarrow> formula" where
  "CHO x y z el = (if el = ''C'' then x else if el = ''H'' then y else if el = ''O'' then z else 0)"

definition N2 :: formula where
  "N2 el = (if el = ''N'' then 2 else 0)"

definition atom_count :: "(formula \<times> rat) list \<Rightarrow> string \<Rightarrow> rat" where
  "atom_count side el = sum_list (map (\<lambda>(f, n). n * f el) side)"

definition reactant_side :: "rat \<Rightarrow> rat \<Rightarrow> rat \<Rightarrow> rat \<Rightarrow> (formula \<times> rat) list" where
  "reactant_side x y z a = [(CHO x y z, 1), (CHO 0 0 2, a), (N2, 376 / 100 * a)]"

definition product_side :: "rat \<Rightarrow> rat \<Rightarrow> rat \<Rightarrow> (formula \<times> rat) list" where
  "product_side N_CO2 N_H2O N_N2 = [(CHO 1 0 2, N_CO2), (CHO 0 2 1, N_H2O), (N2, N_N2)]"

subsection \<open>A library instance for the propane example\<close>

text \<open>
  An instance of the interface that knows propane and water only and reports the numbers
  the notebook displays for them: the reactant and product enthalpies (cells 4 and 9), the
  fuel mass fraction (cell 5), the atom counts (cell 6), the mole fractions of the
  reactants (cell 3). The molecular weights are those of GRI-Mech 3.0; they reproduce the
  displayed \<open>m_h2o\<close> and \<open>lhv_mole\<close>. The notebook displays only the difference of the
  two water enthalpies; the liquid value here is a round number near Cantera's, the vapor
  value is the one that gives the displayed difference. Any other species is unknown. A
  composition is stored as it is given.
\<close>

datatype ct_error = CanteraError string | ValueError string

definition reactants_C3H8 :: "(string \<times> rat) list" where
  "reactants_C3H8 = [(''O2'', dec64 201613 6), (''N2'', dec64 758065 6), (''C3H8'', dec64 403226 7)]"

definition notebook :: "(rat, (string \<times> rat) list, rat \<times> rat, ct_error) cantera" where
  "notebook =
     \<lparr>ct_one_atm = 101325,
      ct_species_index = (\<lambda>name.
        if name = ''H2O'' then Inr 5 else if name = ''C3H8'' then Inr 50
        else Inl (ValueError name)),
      ct_n_atoms = (\<lambda>species element.
        if species = ''C3H8'' then
          (if element = ''C'' then Inr 3 else if element = ''H'' then Inr 8
           else if element = ''O'' then Inr 0 else Inl (CanteraError element))
        else Inl (CanteraError species)),
      ct_molecular_weights = (\<lambda>k.
        if k = 5 then dec64 1801528 5 else if k = 50 then dec64 4409652 5 else 0),
      ct_mole_fractions = Inr,
      ct_equivalence_ratio = (\<lambda>phi fuel oxidizer.
        if fuel = ''C3H8'' then Inr reactants_C3H8 else Inl (CanteraError fuel)),
      ct_mass_fractions = (\<lambda>X k.
        if X = reactants_C3H8 then (if k = 50 then dec64 6034469442007445 17 else 0) else 0),
      ct_enthalpy_mass = (\<lambda>T P X.
        if X = reactants_C3H8 then dec64 (- 14208321261478376) 11
        else dec64 (- 29391892483540904) 10),
      ct_water_TX = (\<lambda>T X. Inr (T, X)),
      ct_water_h = (\<lambda>(T, X). if X = 0 then - 15866000 else dec64 (- 13423687980424305) 9)\<rparr>"

text \<open>
  The state of a fresh \<open>Solution('gri30.cti')\<close> (300 K, 1 atm, pure hydrogen), the
  stoichiometric propane-air reactants at the reference state, and the state in which
  \<open>heating_values('C3H8')\<close> leaves the gas.
\<close>

definition fresh :: "(rat, (string \<times> rat) list, rat \<times> rat) globals" where
  "fresh = \<lparr>gas = \<lparr>sol_T = 300, sol_P = 101325, sol_X = [(''H2'', 1)]\<rparr>, water = (300, 0)\<rparr>"

definition reactants_state :: "(rat, (string \<times> rat) list) solution" where
  "reactants_state = \<lparr>sol_T = dec64 29815 2, sol_P = 101325, sol_X = reactants_C3H8\<rparr>"

definition products_C3H8 :: "(rat, (string \<times> rat) list) solution" where
  "products_C3H8 =
     \<lparr>sol_T = dec64 29815 2, sol_P = 101325,
      sol_X = [(''CO2'', 3), (''H2O'', 4), (''N2'', dec64 18799999999999997 15)]\<rparr>"

section \<open>Rounding to binary64\<close>

text \<open>
  The rounding function is determined by two facts: a number between \<open>2\<^sup>e\<^sup>+\<^sup>5\<^sup>2\<close> and
  \<open>2\<^sup>e\<^sup>+\<^sup>5\<^sup>3\<close> is rounded to a multiple of \<open>2\<^sup>e\<close>, and that multiple is the nearest one
  (the even one at a tie). The relative error of a rounding is at most \<open>2\<^sup>-\<^sup>5\<^sup>3\<close>.
\<close>

lemma round_even_eq:
  assumes "\<bar>q - of_int m\<bar> < 1 / 2"
  shows "round_even q = m"
proof -
  have "\<lfloor>q\<rfloor> = m \<or> \<lfloor>q\<rfloor> = m - 1"
    using assms by (auto simp: floor_eq_iff abs_less_iff)
  then show ?thesis
  proof
    assume f: "\<lfloor>q\<rfloor> = m"
    then have "q - of_int m < 1 / 2" using assms by linarith
    then show ?thesis by (simp add: round_even_def f Let_def)
  next
    assume f: "\<lfloor>q\<rfloor> = m - 1"
    have "1 / 2 < q - (of_int m - 1)" using assms by linarith
    then show ?thesis by (simp add: round_even_def f Let_def)
  qed
qed

lemma round_even_error: "\<bar>of_int (round_even q) - q\<bar> \<le> 1 / 2"
proof -
  have "of_int \<lfloor>q\<rfloor> \<le> q" "q < of_int \<lfloor>q\<rfloor> + 1" by linarith+
  then show ?thesis
    by (auto simp: round_even_def Let_def abs_le_iff)
qed

lemma float_exp_bounds:
  assumes "q \<noteq> 0"
  shows "2 powi (float_exp q) \<le> \<bar>q\<bar> \<and> \<bar>q\<bar> < 2 powi (float_exp q + 1)"
proof -
  obtain n d where nd: "quotient_of \<bar>q\<bar> = (n, d)" by (cases "quotient_of \<bar>q\<bar>")
  have d: "0 < d" using nd quotient_of_denom_pos by blast
  have q: "\<bar>q\<bar> = of_int n / of_int d" using nd quotient_of_div by blast
  have n: "0 < n"
  proof -
    have "0 < \<bar>q\<bar>" using assms by simp
    then show ?thesis using d unfolding q by (simp add: zero_less_divide_iff)
  qed
  define bn where "bn = floorlog 2 (nat n)"
  define bd where "bd = floorlog 2 (nat d)"
  define k where "k = int bn - int bd"
  have bn: "2 ^ (bn - 1) \<le> nat n" "nat n < 2 ^ bn"
    using floorlog_bounds[of "nat n" 2] n by (simp_all add: bn_def)
  have bd: "2 ^ (bd - 1) \<le> nat d" "nat d < 2 ^ bd"
    using floorlog_bounds[of "nat d" 2] d by (simp_all add: bd_def)
  have bn1: "1 \<le> bn" using n by (simp add: bn_def floorlog_def)
  have bd1: "1 \<le> bd" using d by (simp add: bd_def floorlog_def)
  have "(of_nat (2 ^ (bn - 1)) :: rat) \<le> of_nat (nat n)" "(of_nat (nat n) :: rat) < of_nat (2 ^ bn)"
    using bn by (simp_all only: of_nat_le_iff of_nat_less_iff)
  then have nr: "(2::rat) ^ (bn - 1) \<le> of_int n" "of_int n < (2::rat) ^ bn"
    using n by simp_all
  have "(of_nat (2 ^ (bd - 1)) :: rat) \<le> of_nat (nat d)" "(of_nat (nat d) :: rat) < of_nat (2 ^ bd)"
    using bd by (simp_all only: of_nat_le_iff of_nat_less_iff)
  then have dr: "(2::rat) ^ (bd - 1) \<le> of_int d" "of_int d < (2::rat) ^ bd"
    using d by simp_all
  have "k + 1 = int bn - int (bd - 1)" using bd1 by (simp add: k_def)
  then have "(2::rat) powi (k + 1) = 2 ^ bn / 2 ^ (bd - 1)"
    by (simp add: power_int_diff)
  moreover have "rat_of_int n / of_int d < 2 ^ bn / 2 ^ (bd - 1)"
    by (rule frac_less) (use n d nr dr in simp_all)
  ultimately have up: "\<bar>q\<bar> < 2 powi (k + 1)" by (simp add: q)
  have "k - 1 = int (bn - 1) - int bd" using bn1 by (simp add: k_def)
  then have "(2::rat) powi (k - 1) = 2 ^ (bn - 1) / 2 ^ bd"
    by (simp add: power_int_diff)
  moreover have "(2::rat) ^ (bn - 1) / 2 ^ bd < of_int n / of_int d"
    by (rule frac_less2) (use n d nr dr in simp_all)
  ultimately have lo: "2 powi (k - 1) < \<bar>q\<bar>" by (simp add: q)
  have fe: "float_exp q = (if 2 powi k \<le> \<bar>q\<bar> then k else k - 1)"
    by (simp add: float_exp_def nd k_def bn_def bd_def Let_def)
  show ?thesis
    using up lo by (auto simp: fe not_le intro: less_imp_le)
qed


lemma float_exp_eq:
  assumes "2 powi k \<le> \<bar>q\<bar>" "\<bar>q\<bar> < 2 powi (k + 1)"
  shows "float_exp q = k"
proof -
  have "0 < (2::rat) powi k" by (rule zero_less_power_int) simp
  then have "q \<noteq> 0" using assms(1) by linarith
  from float_exp_bounds[OF this]
  have b: "2 powi (float_exp q) \<le> \<bar>q\<bar>" "\<bar>q\<bar> < 2 powi (float_exp q + 1)" by simp_all
  have "\<not> float_exp q < k"
  proof
    assume "float_exp q < k"
    then have "(2::rat) powi (float_exp q + 1) \<le> 2 powi k"
      by (intro power_int_increasing) simp_all
    then show False using b(2) assms(1) by simp
  qed
  moreover have "\<not> k < float_exp q"
  proof
    assume "k < float_exp q"
    then have "(2::rat) powi (k + 1) \<le> 2 powi (float_exp q)"
      by (intro power_int_increasing) simp_all
    then show False using b(1) assms(2) by simp
  qed
  ultimately show ?thesis by simp
qed


lemma round53_eqI:
  assumes "2 powi (e + 52) \<le> \<bar>q\<bar>" and "\<bar>q\<bar> < 2 powi (e + 53)"
    and "\<bar>\<bar>q\<bar> / 2 powi e - of_int m\<bar> < 1 / 2"
    and "r = sgn q * of_int m * 2 powi e"
  shows "round53 q = r"
proof -
  have "float_exp q = e + 52"
    using assms(1,2) by (intro float_exp_eq) (simp_all add: add.commute)
  moreover have "q \<noteq> 0"
    using assms(1) zero_less_power_int[of "2::rat" "e + 52"] by linarith
  moreover have "round_even (\<bar>q\<bar> / 2 powi e) = m"
    using assms(3) by (rule round_even_eq)
  ultimately show ?thesis
    by (simp add: round53_def assms(4))
qed

lemma round53_error: "\<bar>round53 q - q\<bar> \<le> \<bar>q\<bar> / 2 ^ 53"
proof (cases "q = 0")
  case True
  then show ?thesis by (simp add: round53_def)
next
  case False
  define p :: rat where "p = 2 powi (float_exp q - 52)"
  define m where "m = round_even (\<bar>q\<bar> / p)"
  have p: "0 < p" by (simp add: p_def)
  have r: "round53 q = sgn q * of_int m * p"
    using False by (simp add: round53_def p_def m_def Let_def)
  have "q = sgn q * \<bar>q\<bar>" by (simp add: sgn_mult_abs)
  then have "round53 q - q = sgn q * (of_int m * p - \<bar>q\<bar>)"
    unfolding r by (simp add: algebra_simps)
  then have "\<bar>round53 q - q\<bar> = \<bar>of_int m * p - \<bar>q\<bar>\<bar>"
    using False by (simp add: abs_mult abs_sgn_eq)
  also have "of_int m * p - \<bar>q\<bar> = (of_int m - \<bar>q\<bar> / p) * p"
    using p by (simp add: algebra_simps)
  also have "\<bar>(of_int m - \<bar>q\<bar> / p) * p\<bar> = \<bar>of_int m - \<bar>q\<bar> / p\<bar> * p"
    using p by (simp add: abs_mult)
  also have "\<dots> \<le> 1 / 2 * p"
    using round_even_error[of "\<bar>q\<bar> / p"] p
    by (intro mult_right_mono) (simp_all add: m_def)
  also have "p = 2 powi (float_exp q) / 2 ^ 52"
    by (simp add: p_def power_int_diff)
  also have "1 / 2 * (2 powi (float_exp q) / 2 ^ 52) \<le> 1 / 2 * (\<bar>q\<bar> / 2 ^ 52)"
    using float_exp_bounds[OF False] by (intro mult_left_mono divide_right_mono) simp_all
  finally show ?thesis by simp
qed

lemma round_even_tie:
  assumes "q = of_int f + 1 / 2"
  shows "round_even q = (if even f then f else f + 1)"
proof -
  have "\<lfloor>q\<rfloor> = f" unfolding assms by (simp add: floor_eq_iff)
  then show ?thesis by (simp add: round_even_def Let_def assms)
qed

lemma round53_tieI:
  assumes "2 powi (e + 52) \<le> \<bar>q\<bar>" and "\<bar>q\<bar> < 2 powi (e + 53)"
    and "\<bar>q\<bar> / 2 powi e = of_int f + 1 / 2"
    and "r = sgn q * of_int (if even f then f else f + 1) * 2 powi e"
  shows "round53 q = r"
proof -
  have "float_exp q = e + 52"
    using assms(1,2) by (intro float_exp_eq) (simp_all add: add.commute)
  moreover have "q \<noteq> 0"
    using assms(1) zero_less_power_int[of "2::rat" "e + 52"] by linarith
  moreover have "round_even (\<bar>q\<bar> / 2 powi e) = (if even f then f else f + 1)"
    using assms(3) by (rule round_even_tie)
  ultimately show ?thesis
    by (simp add: round53_def assms(4))
qed

lemma round53_0 [simp]: "round53 0 = 0"
  by (simp add: round53_def)

text \<open>A number with a significand below \<open>2\<^sup>5\<^sup>3\<close> is not changed by rounding.\<close>

lemma round_even_of_int: "round_even (of_int n) = n"
  by (rule round_even_eq) simp

lemma round53_representable:
  assumes "\<bar>m\<bar> < 2 ^ 53"
  shows "round53 (of_int m * 2 powi e) = of_int m * 2 powi e"
proof (cases "m = 0")
  case True
  then show ?thesis by simp
next
  case False
  define q :: rat where "q = of_int m * 2 powi e"
  have q0: "q \<noteq> 0" using False by (simp add: q_def)
  have absq: "\<bar>q\<bar> = of_int \<bar>m\<bar> * 2 powi e"
    by (simp add: q_def abs_mult)
  define fe where "fe = float_exp q"
  have lo: "2 powi fe \<le> \<bar>q\<bar>"
    using float_exp_bounds[OF q0] by (simp add: fe_def)
  have "2 powi (fe - e) \<le> (of_int \<bar>m\<bar> :: rat)"
  proof -
    have "(2::rat) powi (fe - e) = 2 powi fe / 2 powi e" by (simp add: power_int_diff)
    also have "\<dots> \<le> \<bar>q\<bar> / 2 powi e" using lo by (simp add: divide_right_mono)
    also have "\<dots> = of_int \<bar>m\<bar>" by (simp add: absq)
    finally show ?thesis .
  qed
  moreover have "(of_int \<bar>m\<bar> :: rat) < 2 powi 53"
  proof -
    have "(of_int \<bar>m\<bar> :: rat) < of_int (2 ^ 53)" using assms by (simp only: of_int_less_iff)
    then show ?thesis by simp
  qed
  ultimately have lt: "(2::rat) powi (fe - e) < 2 powi 53" by linarith
  have "fe - e < 53"
  proof (rule ccontr)
    assume "\<not> fe - e < 53"
    then have "(2::rat) powi 53 \<le> 2 powi (fe - e)"
      by (intro power_int_increasing) simp_all
    with lt show False by linarith
  qed
  then have d: "0 \<le> e - (fe - 52)" by simp
  define d where "d = nat (e - (fe - 52))"
  have e: "e = (fe - 52) + int d" using d by (simp add: d_def)
  have "(2::rat) powi e = 2 powi (fe - 52) * 2 ^ d"
    by (subst e) (simp add: power_int_add)
  then have sc: "\<bar>q\<bar> / 2 powi (fe - 52) = of_int (\<bar>m\<bar> * 2 ^ d)"
    by (simp add: absq)
  have "round53 q = sgn q * of_int (round_even (\<bar>q\<bar> / 2 powi (fe - 52))) * 2 powi (fe - 52)"
    using q0 by (simp add: round53_def fe_def Let_def)
  also have "\<dots> = sgn q * (\<bar>q\<bar> / 2 powi (fe - 52)) * 2 powi (fe - 52)"
    unfolding sc round_even_of_int ..
  also have "\<dots> = sgn q * \<bar>q\<bar>" by simp
  also have "\<dots> = q" by (simp add: sgn_mult_abs)
  finally show ?thesis by (simp add: q_def)
qed

lemma round53_quarters:
  assumes "\<bar>m\<bar> < 2 ^ 53"
  shows "round53 (of_int m / 4) = of_int m / 4"
  using round53_representable[OF assms, of "-2"] by simp

section \<open>The propane example, step by step\<close>

text \<open>
  Each operation of the example, with the binary64 numbers written as Python prints them.
  The lemmas \<open>val_\<close> give the exact value of each number.
\<close>

lemma lit_4: "lit binary64 4 = 4"
  by (simp only: binary64_def arith.simps,
      rule round53_eqI[where e = "-50" and m = 4503599627370496]; simp)

lemma lit_2: "lit binary64 2 = 2"
  by (simp only: binary64_def arith.simps,
      rule round53_eqI[where e = "-51" and m = 4503599627370496]; simp)

lemma lit_1: "lit binary64 1 = 1"
  by (simp only: binary64_def arith.simps,
      rule round53_eqI[where e = "-52" and m = 4503599627370496]; simp)

lemma propane_y4: "fdiv binary64 8 4 = 2"
  by (simp only: binary64_def arith.simps,
      rule round53_eqI[where e = "-51" and m = 4503599627370496]; simp)

lemma propane_x_y4: "fadd binary64 3 2 = 5"
  by (simp only: binary64_def arith.simps,
      rule round53_eqI[where e = "-50" and m = 5629499534213120]; simp)

lemma propane_z2: "fdiv binary64 0 2 = 0"
  by (simp add: binary64_def)

lemma propane_a: "fsub binary64 5 0 = 5"
  by (simp only: binary64_def arith.simps,
      rule round53_eqI[where e = "-50" and m = 5629499534213120]; simp)

lemma propane_N_H2O: "fdiv binary64 8 2 = 4"
  by (simp only: binary64_def arith.simps,
      rule round53_eqI[where e = "-50" and m = 4503599627370496]; simp)

lemma val_3_76: "dec64 376 2 = 2116691824864133 / 562949953421312"
  unfolding dec64_def by (rule round53_eqI[where e = "-51" and m = 8466767299456532]; simp)

lemma val_18_799999999999997: "dec64 18799999999999997 15 = 1322932390540083 / 70368744177664"
  unfolding dec64_def by (rule round53_eqI[where e = "-48" and m = 5291729562160332]; simp)

lemma propane_N_N2: "fmul binary64 (dec64 376 2) 5 = dec64 18799999999999997 15"
  by (simp only: binary64_def arith.simps val_3_76 val_18_799999999999997,
      rule round53_tieI[where e = "-48" and f = 5291729562160332]; simp)

lemma val_m142083_21261478376:
  "dec64 (- 14208321261478376) 11 = - (4881942011928887 / 34359738368)"
  unfolding dec64_def by (rule round53_eqI[where e = "-35" and m = 4881942011928887]; simp)

lemma val_m2939189_2483540904: "dec64 (- 29391892483540904) 10 = - (1577965212304455 / 536870912)"
  unfolding dec64_def by (rule round53_eqI[where e = "-31" and m = 6311860849217820]; simp)

lemma val_2797106_035739307: "dec64 2797106035739307 9 = 6006739473472265 / 2147483648"
  unfolding dec64_def by (rule round53_eqI[where e = "-31" and m = 6006739473472265]; simp)

lemma propane_dh:
  "fsub binary64 (dec64 (- 14208321261478376) 11) (dec64 (- 29391892483540904) 10)
     = dec64 2797106035739307 9"
  by (simp only: binary64_def arith.simps val_m142083_21261478376 val_m2939189_2483540904
      val_2797106_035739307,
      rule round53_eqI[where e = "-31" and m = 6006739473472265]; simp)

lemma val_0_06034469442007445: "dec64 6034469442007445 17 = 1087073373216135 / 18014398509481984"
  unfolding dec64_def by (rule round53_eqI[where e = "-57" and m = 8696586985729080]; simp)

lemma val_46352145_16570347: "dec64 4635214516570347 8 = 6221279612066903 / 134217728"
  unfolding dec64_def by (rule round53_eqI[where e = "-27" and m = 6221279612066903]; simp)

lemma propane_lhv_mass:
  "fdiv binary64 (dec64 2797106035739307 9) (dec64 6034469442007445 17)
     = dec64 4635214516570347 8"
  by (simp only: binary64_def arith.simps val_2797106_035739307 val_0_06034469442007445
      val_46352145_16570347,
      rule round53_eqI[where e = "-27" and m = 6221279612066903]; simp)

lemma val_44_09652: "dec64 4409652 5 = 775754183751311 / 17592186044416"
  unfolding dec64_def by (rule round53_eqI[where e = "-47" and m = 6206033470010488]; simp)

lemma val_2043968296_3423462: "dec64 20439682963423462 7 = 33488376567273 / 16384"
  unfolding dec64_def by (rule round53_eqI[where e = "-22" and m = 8573024401221888]; simp)

lemma propane_lhv_mole:
  "fmul binary64 (dec64 4635214516570347 8) (dec64 4409652 5) = dec64 20439682963423462 7"
  by (simp only: binary64_def arith.simps val_46352145_16570347 val_44_09652
      val_2043968296_3423462,
      rule round53_eqI[where e = "-22" and m = 8573024401221888]; simp)

lemma val_m13423687_980424305: "dec64 (- 13423687980424305) 9 = - (7206787608453835 / 536870912)"
  unfolding dec64_def by (rule round53_eqI[where e = "-29" and m = 7206787608453835]; simp)

lemma val_2442312_0195756946: "dec64 24423120195756946 10 = 1311206281338165 / 536870912"
  unfolding dec64_def by (rule round53_eqI[where e = "-31" and m = 5244825125352660]; simp)

lemma propane_h_fg:
  "fsub binary64 (dec64 (- 13423687980424305) 9) (- 15866000) = dec64 24423120195756946 10"
  by (simp only: binary64_def arith.simps val_m13423687_980424305 val_2442312_0195756946,
      rule round53_eqI[where e = "-31" and m = 5244825125352660]; simp)

lemma val_18_01528: "dec64 1801528 5 = 5070850518435947 / 281474976710656"
  unfolding dec64_def by (rule round53_eqI[where e = "-48" and m = 5070850518435947]; simp)

lemma val_72_06112: "dec64 7206112 5 = 5070850518435947 / 70368744177664"
  unfolding dec64_def by (rule round53_eqI[where e = "-46" and m = 5070850518435947]; simp)

lemma propane_m_h2o_num: "fmul binary64 4 (dec64 1801528 5) = dec64 7206112 5"
  by (simp only: binary64_def arith.simps val_18_01528 val_72_06112,
      rule round53_eqI[where e = "-46" and m = 5070850518435947]; simp)

lemma val_1_6341679570179235: "dec64 16341679570179235 16 = 7359638202286725 / 4503599627370496"
  unfolding dec64_def by (rule round53_eqI[where e = "-52" and m = 7359638202286725]; simp)

lemma propane_m_h2o:
  "fdiv binary64 (dec64 7206112 5) (dec64 4409652 5) = dec64 16341679570179235 16"
  by (simp only: binary64_def arith.simps val_72_06112 val_44_09652 val_1_6341679570179235,
      rule round53_eqI[where e = "-52" and m = 7359638202286725]; simp)

lemma val_3991148_0434303316: "dec64 39911480434303316 10 = 8570925160013831 / 2147483648"
  unfolding dec64_def by (rule round53_eqI[where e = "-31" and m = 8570925160013831]; simp)

lemma propane_m_h_fg:
  "fmul binary64 (dec64 16341679570179235 16) (dec64 24423120195756946 10)
     = dec64 39911480434303316 10"
  by (simp only: binary64_def arith.simps val_1_6341679570179235 val_2442312_0195756946
      val_3991148_0434303316,
      rule round53_eqI[where e = "-31" and m = 8570925160013831]; simp)

lemma val_50343293_2091338: "dec64 503432932091338 7 = 6756962434567767 / 134217728"
  unfolding dec64_def by (rule round53_eqI[where e = "-27" and m = 6756962434567767]; simp)

lemma propane_hhv_mass:
  "fadd binary64 (dec64 4635214516570347 8) (dec64 39911480434303316 10)
     = dec64 503432932091338 7"
  by (simp only: binary64_def arith.simps val_46352145_16570347 val_3991148_0434303316
      val_50343293_2091338,
      rule round53_eqI[where e = "-27" and m = 6756962434567767]; simp)

lemma val_2219964035_8624325: "dec64 22199640358624325 7 = 1163900504434243 / 524288"
  unfolding dec64_def by (rule round53_eqI[where e = "-21" and m = 4655602017736972]; simp)

lemma propane_hhv_mole:
  "fmul binary64 (dec64 503432932091338 7) (dec64 4409652 5) = dec64 22199640358624325 7"
  by (simp only: binary64_def arith.simps val_50343293_2091338 val_44_09652
      val_2219964035_8624325,
      rule round53_eqI[where e = "-21" and m = 4655602017736972]; simp)

lemma val_3991148_0434303284: "dec64 39911480434303284 10 = 1046255512697 / 262144"
  unfolding dec64_def by (rule round53_eqI[where e = "-31" and m = 8570925160013824]; simp)

lemma propane_hhv_minus_lhv:
  "fsub binary64 (dec64 503432932091338 7) (dec64 4635214516570347 8)
     = dec64 39911480434303284 10"
  by (simp only: binary64_def arith.simps val_50343293_2091338 val_46352145_16570347
      val_3991148_0434303284,
      rule round53_eqI[where e = "-31" and m = 8570925160013824]; simp)

lemma lit_1000: "lit binary64 1000 = 1000"
  by (simp only: binary64_def arith.simps,
      rule round53_eqI[where e = "-43" and m = 8796093022208000]; simp)

lemma val_46352_14516570347: "dec64 4635214516570347 11 = 6370590322756509 / 137438953472"
  unfolding dec64_def by (rule round53_eqI[where e = "-37" and m = 6370590322756509]; simp)

lemma cell10_lhv_kJ: "fdiv binary64 (dec64 4635214516570347 8) 1000 = dec64 4635214516570347 11"
  by (simp only: binary64_def arith.simps val_46352145_16570347 val_46352_14516570347,
      rule round53_eqI[where e = "-37" and m = 6370590322756509]; simp)

lemma val_2442_3120195756946: "dec64 24423120195756946 13 = 1342675232090281 / 549755813888"
  unfolding dec64_def by (rule round53_eqI[where e = "-41" and m = 5370700928361124]; simp)

lemma val_3991_1480434303317: "dec64 39911480434303317 13 = 8776627363854163 / 2199023255552"
  unfolding dec64_def by (rule round53_eqI[where e = "-41" and m = 8776627363854163]; simp)

lemma cell15_m_h_fg:
  "fmul binary64 (dec64 16341679570179235 16) (dec64 24423120195756946 13)
     = dec64 39911480434303317 13"
  by (simp only: binary64_def arith.simps val_1_6341679570179235 val_2442_3120195756946
      val_3991_1480434303317,
      rule round53_eqI[where e = "-41" and m = 8776627363854163]; simp)

lemma val_50343_2932091338: "dec64 503432932091338 10 = 3459564766498697 / 68719476736"
  unfolding dec64_def by (rule round53_eqI[where e = "-37" and m = 6919129532997394]; simp)

lemma cell15_hhv_kJ:
  "fadd binary64 (dec64 4635214516570347 11) (dec64 39911480434303317 13)
     = dec64 503432932091338 10"
  by (simp only: binary64_def arith.simps val_46352_14516570347 val_3991_1480434303317
      val_50343_2932091338,
      rule round53_eqI[where e = "-37" and m = 6919129532997394]; simp)

lemma val_298_15: "dec64 29815 2 = 2622555134571315 / 8796093022208"
  unfolding dec64_def by (rule round53_eqI[where e = "-44" and m = 5245110269142630]; simp)

section \<open>Atom counts in binary64\<close>

text \<open>
  \<open>n_atoms\<close> reports the atoms of a species as a float with a whole value. For whole
  counts below \<open>2\<^sup>5\<^sup>0\<close> the code computes \<open>a\<close> and \<open>N_H2O\<close> without any rounding.
  \<open>N_N2\<close> is the rounded product of the float \<open>3.76\<close> and \<open>a\<close>; it is within two roundings
  of \<open>3.76 a\<close>.
\<close>

lemma stoich_binary64_exact:
  fixes x y z :: nat
  assumes "x < 2 ^ 50" "y < 2 ^ 50" "z < 2 ^ 50"
  shows "stoich_a binary64 (of_nat x) (of_nat y) (of_nat z)
           = of_nat x + of_nat y / 4 - of_nat z / 2"
    and "fdiv binary64 (of_nat y) (lit binary64 2) = of_nat y / 2"
proof -
  have b: "int x < 2 ^ 50" "int y < 2 ^ 50" "int z < 2 ^ 50"
    using assms by (simp_all only: of_nat_less_numeral_power_cancel_iff)
  have e1: "(of_nat y / 4 :: rat) = of_int (int y) / 4" by simp
  have e2: "(of_nat x + of_nat y / 4 :: rat) = of_int (4 * int x + int y) / 4" by simp
  have e3: "(of_nat z / 2 :: rat) = of_int (2 * int z) / 4" by simp
  have e4: "(of_nat x + of_nat y / 4 - of_nat z / 2 :: rat)
      = of_int (4 * int x + int y - 2 * int z) / 4" by simp
  have e5: "(of_nat y / 2 :: rat) = of_int (2 * int y) / 4" by simp
  have r1: "round53 (of_nat y / 4) = of_nat y / 4"
    unfolding e1 by (rule round53_quarters) (use b in simp)
  have r2: "round53 (of_nat x + of_nat y / 4) = of_nat x + of_nat y / 4"
    unfolding e2 by (rule round53_quarters) (use b in simp)
  have r3: "round53 (of_nat z / 2) = of_nat z / 2"
    unfolding e3 by (rule round53_quarters) (use b in simp)
  have r4: "round53 (of_nat x + of_nat y / 4 - of_nat z / 2)
      = of_nat x + of_nat y / 4 - of_nat z / 2"
    unfolding e4 by (rule round53_quarters) (use b in \<open>simp add: abs_less_iff\<close>)
  have r5: "round53 (of_nat y / 2) = of_nat y / 2"
    unfolding e5 by (rule round53_quarters) (use b in simp)
  have ops: "fdiv binary64 u v = round53 (u / v)" "fadd binary64 u v = round53 (u + v)"
    "fsub binary64 u v = round53 (u - v)" for u v
    by (simp_all add: binary64_def)
  show "stoich_a binary64 (of_nat x) (of_nat y) (of_nat z)
           = of_nat x + of_nat y / 4 - of_nat z / 2"
    by (simp only: stoich_a_def lit_4 lit_2 ops r1 r2 r3 r4)
  show "fdiv binary64 (of_nat y) (lit binary64 2) = of_nat y / 2"
    by (simp only: lit_2 ops r5)
qed

lemma N_N2_rounding:
  "\<bar>round53 (dec64 376 2 * a) - 376 / 100 * a\<bar>
     \<le> (\<bar>dec64 376 2 * a\<bar> + 376 / 100 * \<bar>a\<bar>) / 2 ^ 53"
proof -
  have "\<bar>round53 (dec64 376 2 * a) - dec64 376 2 * a\<bar> \<le> \<bar>dec64 376 2 * a\<bar> / 2 ^ 53"
    by (rule round53_error)
  moreover have "\<bar>dec64 376 2 - 376 / 100\<bar> \<le> \<bar>376 / 100\<bar> / 2 ^ 53"
    using round53_error[of "376 / 100"] by (simp add: dec64_def)
  then have "\<bar>dec64 376 2 - 376 / 100\<bar> * \<bar>a\<bar> \<le> 376 / 100 / 2 ^ 53 * \<bar>a\<bar>"
    by (intro mult_right_mono) simp_all
  then have "\<bar>dec64 376 2 * a - 376 / 100 * a\<bar> \<le> 376 / 100 * \<bar>a\<bar> / 2 ^ 53"
    by (simp add: abs_mult[symmetric] left_diff_distrib)
  ultimately have "\<bar>round53 (dec64 376 2 * a) - 376 / 100 * a\<bar>
      \<le> \<bar>dec64 376 2 * a\<bar> / 2 ^ 53 + 376 / 100 * \<bar>a\<bar> / 2 ^ 53"
    by linarith
  then show ?thesis by (simp add: add_divide_distrib)
qed

text \<open>
  With atom counts that are not whole the coefficient \<open>a\<close> itself is rounded: for
  \<open>x = 0.1\<close>, \<open>y = 0.2\<close>, \<open>z = 0\<close> the code computes \<open>a = 0.15000000000000002\<close>.
\<close>

lemma val_18_8: "dec64 188 1 = 5291729562160333 / 281474976710656"
  unfolding dec64_def by (rule round53_eqI[where e = "-48" and m = 5291729562160333]; simp)

lemma val_0_2: "dec64 2 1 = 3602879701896397 / 18014398509481984"
  unfolding dec64_def by (rule round53_eqI[where e = "-55" and m = 7205759403792794]; simp)

lemma val_0_05: "dec64 5 2 = 3602879701896397 / 72057594037927936"
  unfolding dec64_def by (rule round53_eqI[where e = "-57" and m = 7205759403792794]; simp)

lemma tenths_y4: "fdiv binary64 (dec64 2 1) 4 = dec64 5 2"
  by (simp only: binary64_def arith.simps val_0_2 val_0_05,
      rule round53_eqI[where e = "-57" and m = 7205759403792794]; simp)

lemma val_0_1: "dec64 1 1 = 3602879701896397 / 36028797018963968"
  unfolding dec64_def by (rule round53_eqI[where e = "-56" and m = 7205759403792794]; simp)

lemma val_0_15000000000000002: "dec64 15000000000000002 17 = 1351079888211149 / 9007199254740992"
  unfolding dec64_def by (rule round53_eqI[where e = "-55" and m = 5404319552844596]; simp)

lemma tenths_x_y4: "fadd binary64 (dec64 1 1) (dec64 5 2) = dec64 15000000000000002 17"
  by (simp only: binary64_def arith.simps val_0_1 val_0_05 val_0_15000000000000002,
      rule round53_tieI[where e = "-55" and f = 5404319552844595]; simp)

lemma tenths_a: "fsub binary64 (dec64 15000000000000002 17) 0 = dec64 15000000000000002 17"
  by (simp only: binary64_def arith.simps val_0_15000000000000002,
      rule round53_eqI[where e = "-55" and m = 5404319552844596]; simp)

lemma tenths_N_H2O: "fdiv binary64 (dec64 2 1) 2 = dec64 1 1"
  by (simp only: binary64_def arith.simps val_0_2 val_0_1,
      rule round53_eqI[where e = "-56" and m = 7205759403792794]; simp)


lemma stoich_a_tenths:
  "stoich_a binary64 (dec64 1 1) (dec64 2 1) 0 = dec64 15000000000000002 17"
  by (simp only: stoich_a_def lit_4 lit_2 tenths_y4 tenths_x_y4 propane_z2 tenths_a)

lemma oxygen_unbalanced_tenths:
  "atom_count (reactant_side (dec64 1 1) (dec64 2 1) 0 (dec64 15000000000000002 17)) ''O''
     \<noteq> atom_count (product_side (dec64 1 1) (dec64 1 1) n) ''O''"
  unfolding val_0_1 val_0_2 val_0_15000000000000002
  by (simp add: atom_count_def reactant_side_def product_side_def CHO_def N2_def)

section \<open>Evaluating \<open>heating_values('C3H8')\<close> in binary64\<close>

lemma and_then_Inl [simp]: "and_then (Inl e) f = Inl e"
  by (simp add: and_then_def)

lemma and_then_Inr [simp]: "and_then (Inr v) f = f v"
  by (simp add: and_then_def)

lemma T_ref_binary64: "T_ref binary64 = dec64 29815 2"
  by (simp add: T_ref_def binary64_def dec64_def)

lemma lit_376: "lit binary64 (376 / 100) = dec64 376 2"
  by (simp add: binary64_def dec64_def)

lemma lit_0: "lit binary64 0 = 0"
  by (simp add: binary64_def)

text \<open>Cell 7 displays \<open>(3.0, 4.0, 18.799999999999997)\<close>.\<close>

lemma product_moles_propane:
  "product_moles binary64 3 8 0 = (3, 4, dec64 18799999999999997 15)"
  by (simp only: product_moles_def stoich_a_def Let_def lit_4 lit_2 lit_376
      propane_y4 propane_x_y4 propane_z2 propane_a propane_N_H2O propane_N_N2)

lemma set_reactants_propane:
  "set_reactants binary64 notebook ''C3H8'' g = Inr reactants_state"
  by (simp add: set_reactants_def set_equivalence_ratio_def TP_set_def notebook_def
      T_ref_binary64 reactants_state_def)

lemma reactants_ne: "[(''CO2'', a), (''H2O'', b), (''N2'', c)] \<noteq> reactants_C3H8"
  by (simp add: reactants_C3H8_def)

lemma set_products_propane:
  "set_products binary64 notebook ''C3H8'' reactants_state = Inr (4, products_C3H8)"
  by (simp add: set_products_def product_moles_propane TPX_set_def TP_set_def notebook_def
      reactants_state_def products_C3H8_def)

lemma vaporization_propane:
  "vaporization binary64 notebook = Inr (dec64 24423120195756946 10, (dec64 29815 2, 1))"
  by (simp add: vaporization_def notebook_def T_ref_binary64 lit_0 lit_1 propane_h_fg)

lemma notebook_propane:
  "ct_species_index notebook ''C3H8'' = Inr 50"
  "ct_species_index notebook ''H2O'' = Inr 5"
  "ct_molecular_weights notebook 50 = dec64 4409652 5"
  "ct_molecular_weights notebook 5 = dec64 1801528 5"
  "mass_fraction_Y notebook reactants_state 50 = dec64 6034469442007445 17"
  "enthalpy_mass notebook reactants_state = dec64 (- 14208321261478376) 11"
  "enthalpy_mass notebook products_C3H8 = dec64 (- 29391892483540904) 10"
  by (simp_all add: notebook_def mass_fraction_Y_def enthalpy_mass_def reactants_state_def
      products_C3H8_def reactants_ne)

text \<open>
  The four values are those of the row \<open>C3H8\<close> in the table of cell 17, which prints them
  divided by 1000 and rounded to six decimals: 46352.145166, 2043968.296342, 50343.293209,
  2219964.035862.
\<close>

lemma heating_values_propane:
  "heating_values binary64 notebook ''C3H8'' s =
     Inr ((dec64 4635214516570347 8, dec64 20439682963423462 7,
           dec64 503432932091338 7, dec64 22199640358624325 7),
          \<lparr>gas = products_C3H8, water = (dec64 29815 2, 1)\<rparr>)"
  by (simp add: heating_values_def set_reactants_propane set_products_propane
      vaporization_propane notebook_propane
      propane_dh propane_lhv_mass propane_lhv_mole propane_m_h2o_num propane_m_h2o
      propane_m_h_fg propane_hhv_mass propane_hhv_mole)

lemma propane_results_differ:
  "dec64 39911480434303284 10 \<noteq> dec64 39911480434303316 10"
  by (simp add: val_3991148_0434303284 val_3991148_0434303316)

lemma propane_exact_difference:
  "dec64 503432932091338 7 - dec64 4635214516570347 8
     \<noteq> dec64 16341679570179235 16 * dec64 24423120195756946 10"
  by (simp add: val_50343293_2091338 val_46352145_16570347 val_1_6341679570179235
      val_2442312_0195756946)

section \<open>What a call of \<open>heating_values\<close> does\<close>

text \<open>
  The outcome of each step and of the whole function in terms of the library's answers,
  for every arithmetic and every library.
\<close>

lemma and_then_eq_Inr:
  "and_then m f = Inr r \<longleftrightarrow> (\<exists>v. m = Inr v \<and> f v = Inr r)"
  by (cases m) simp_all

lemma and_then_eq_Inl:
  "and_then m f = Inl e \<longleftrightarrow> m = Inl e \<or> (\<exists>v. m = Inr v \<and> f v = Inl e)"
  by (cases m) simp_all

lemma product_moles_eq:
  "product_moles A x y z = (x, fdiv A y (lit A 2), fmul A (lit A (376 / 100)) (stoich_a A x y z))"
  by (simp add: product_moles_def Let_def)

lemma set_reactants_Inr:
  "set_reactants A L fuel g = Inr g1 \<longleftrightarrow>
     (\<exists>Xr. ct_equivalence_ratio L (lit A 1) fuel air = Inr Xr \<and>
           g1 = \<lparr>sol_T = T_ref A, sol_P = ct_one_atm L, sol_X = Xr\<rparr>)"
  by (cases g) (auto simp: set_reactants_def set_equivalence_ratio_def TP_set_def and_then_eq_Inr)

lemma set_reactants_Inl:
  "set_reactants A L fuel g = Inl e \<longleftrightarrow> ct_equivalence_ratio L (lit A 1) fuel air = Inl e"
  by (auto simp: set_reactants_def set_equivalence_ratio_def and_then_eq_Inl)

lemma set_reactants_indep: "set_reactants A L fuel g = set_reactants A L fuel g'"
  by (cases g; cases g')
    (simp add: set_reactants_def set_equivalence_ratio_def TP_set_def)

lemma set_products_Inr:
  "set_products A L fuel g = Inr (n, g2) \<longleftrightarrow>
     (\<exists>x y z Xp. ct_n_atoms L fuel ''C'' = Inr x \<and> ct_n_atoms L fuel ''H'' = Inr y \<and>
        ct_n_atoms L fuel ''O'' = Inr z \<and>
        ct_mole_fractions L
          [(''CO2'', x), (''H2O'', fdiv A y (lit A 2)),
           (''N2'', fmul A (lit A (376 / 100)) (stoich_a A x y z))] = Inr Xp \<and>
        n = fdiv A y (lit A 2) \<and> g2 = g\<lparr>sol_X := Xp\<rparr>)"
  by (auto simp: set_products_def product_moles_eq TPX_set_def TP_set_def and_then_eq_Inr)

lemma set_products_Inl:
  "set_products A L fuel g = Inl e \<longleftrightarrow>
     ct_n_atoms L fuel ''C'' = Inl e \<or>
     (\<exists>x. ct_n_atoms L fuel ''C'' = Inr x \<and>
       (ct_n_atoms L fuel ''H'' = Inl e \<or>
        (\<exists>y. ct_n_atoms L fuel ''H'' = Inr y \<and>
          (ct_n_atoms L fuel ''O'' = Inl e \<or>
           (\<exists>z. ct_n_atoms L fuel ''O'' = Inr z \<and>
              ct_mole_fractions L
                [(''CO2'', x), (''H2O'', fdiv A y (lit A 2)),
                 (''N2'', fmul A (lit A (376 / 100)) (stoich_a A x y z))] = Inl e)))))"
  by (auto simp: set_products_def product_moles_eq TPX_set_def and_then_eq_Inl)

lemma vaporization_Inr:
  "vaporization A L = Inr (h_fg, w) \<longleftrightarrow>
     (\<exists>w0. ct_water_TX L (T_ref A) (lit A 0) = Inr w0 \<and>
           ct_water_TX L (T_ref A) (lit A 1) = Inr w \<and>
           h_fg = fsub A (ct_water_h L w) (ct_water_h L w0))"
  by (auto simp: vaporization_def and_then_eq_Inr Let_def)

lemma vaporization_Inl:
  "vaporization A L = Inl e \<longleftrightarrow>
     ct_water_TX L (T_ref A) (lit A 0) = Inl e \<or>
     (\<exists>w0. ct_water_TX L (T_ref A) (lit A 0) = Inr w0 \<and>
        ct_water_TX L (T_ref A) (lit A 1) = Inl e)"
  by (auto simp: vaporization_def and_then_eq_Inl Let_def)

lemma heating_values_Inr:
  "heating_values A L fuel s = Inr ((lhv_mass, lhv_mole, hhv_mass, hhv_mole), s') \<longleftrightarrow>
     (\<exists>g1 k N_H2O g2 h_fg w kw.
        set_reactants A L fuel (gas s) = Inr g1 \<and>
        ct_species_index L fuel = Inr k \<and>
        set_products A L fuel g1 = Inr (N_H2O, g2) \<and>
        vaporization A L = Inr (h_fg, w) \<and>
        ct_species_index L ''H2O'' = Inr kw \<and>
        lhv_mass = fdiv A (fsub A (enthalpy_mass L g1) (enthalpy_mass L g2)) (mass_fraction_Y L g1 k) \<and>
        lhv_mole = fmul A lhv_mass (ct_molecular_weights L k) \<and>
        hhv_mass = fadd A lhv_mass
          (fmul A (fdiv A (fmul A N_H2O (ct_molecular_weights L kw)) (ct_molecular_weights L k)) h_fg) \<and>
        hhv_mole = fmul A hhv_mass (ct_molecular_weights L k) \<and>
        s' = \<lparr>gas = g2, water = w\<rparr>)"
  by (auto simp: heating_values_def and_then_eq_Inr Let_def split: prod.splits)

lemma heating_values_Inl:
  "heating_values A L fuel s = Inl e \<longleftrightarrow>
     set_reactants A L fuel (gas s) = Inl e \<or>
     (\<exists>g1. set_reactants A L fuel (gas s) = Inr g1 \<and>
       (ct_species_index L fuel = Inl e \<or>
        (\<exists>k. ct_species_index L fuel = Inr k \<and>
          (set_products A L fuel g1 = Inl e \<or>
           (\<exists>n g2. set_products A L fuel g1 = Inr (n, g2) \<and>
             (vaporization A L = Inl e \<or>
              (\<exists>h_fg w. vaporization A L = Inr (h_fg, w) \<and>
                 ct_species_index L ''H2O'' = Inl e)))))))"
  by (auto simp: heating_values_def and_then_eq_Inl Let_def split: prod.splits)

lemma round53_add_mul_error:
  "\<bar>round53 (l + round53 (m * h)) - l - m * h\<bar>
     \<le> (\<bar>l + round53 (m * h)\<bar> + \<bar>m * h\<bar>) / 2 ^ 53"
proof -
  define p where "p = round53 (m * h)"
  have "\<bar>round53 (l + p) - (l + p)\<bar> \<le> \<bar>l + p\<bar> / 2 ^ 53"
    by (rule round53_error)
  moreover have "\<bar>p - m * h\<bar> \<le> \<bar>m * h\<bar> / 2 ^ 53"
    unfolding p_def by (rule round53_error)
  ultimately have "\<bar>round53 (l + p) - l - m * h\<bar> \<le> \<bar>l + p\<bar> / 2 ^ 53 + \<bar>m * h\<bar> / 2 ^ 53"
    by linarith
  then show ?thesis
    by (simp add: p_def add_divide_distrib)
qed

section \<open>The claims\<close>

text \<open>
  Claim C1, as stated, says that the numbers the routine computes conserve the nitrogen
  atoms of \<open>C\<^sub>xH\<^sub>yO\<^sub>z + a (O\<^sub>2 + 3.76 N\<^sub>2)\<close>. For propane (\<open>x = 3\<close>, \<open>y = 8\<close>, \<open>z = 0\<close>) the
  routine computes \<open>a = 5\<close> and \<open>N_N2 = 18.799999999999997\<close> (cell 7 displays it), which is
  neither \<open>3.76 * 5 = 18.8\<close> nor the float \<open>18.8\<close>: the product side holds fewer nitrogen
  atoms than the reactant side.
\<close>

theorem nitrogen_not_conserved_exactly:
  "stoich_a binary64 3 8 0 = 5 \<and>
   product_moles binary64 3 8 0 = (3, 4, dec64 18799999999999997 15) \<and>
   dec64 18799999999999997 15 \<noteq> 376 / 100 * 5 \<and>
   dec64 18799999999999997 15 \<noteq> dec64 188 1 \<and>
   atom_count (reactant_side 3 8 0 5) ''N''
     \<noteq> atom_count (product_side 3 4 (dec64 18799999999999997 15)) ''N''"
proof -
  have "stoich_a binary64 3 8 0 = 5"
    by (simp only: stoich_a_def lit_4 lit_2 propane_y4 propane_x_y4 propane_z2 propane_a)
  moreover have "dec64 18799999999999997 15 \<noteq> 376 / 100 * 5"
    by (simp add: val_18_799999999999997)
  moreover have "dec64 18799999999999997 15 \<noteq> dec64 188 1"
    unfolding val_18_799999999999997 val_18_8 by simp
  moreover have "atom_count (reactant_side 3 8 0 5) ''N''
     \<noteq> atom_count (product_side 3 4 (dec64 18799999999999997 15)) ''N''"
    by (simp add: atom_count_def reactant_side_def product_side_def CHO_def N2_def
        val_18_799999999999997)
  ultimately show ?thesis using product_moles_propane by blast
qed

text \<open>
  Claim C1, as amended. For whole atom counts \<open>x\<close>, \<open>y\<close>, \<open>z\<close> below \<open>2\<^sup>5\<^sup>0\<close>, as
  \<open>n_atoms\<close> reports them, the routine computes \<open>a = x + y/4 - z/2\<close>, \<open>N_CO2 = x\<close> and
  \<open>N_H2O = y/2\<close> without rounding, and \<open>N_N2\<close> as the binary64 product of the float
  \<open>3.76\<close> and \<open>a\<close>. The carbon, hydrogen and oxygen atoms of the two sides of the
  combustion equation are equal; the nitrogen atoms are equal up to the rounding of
  \<open>3.76 * a\<close>, a relative error of about \<open>2\<^sup>-\<^sup>5\<^sup>2\<close>.
\<close>

theorem stoichiometry_balance_binary64:
  fixes x y z :: nat
  assumes "x < 2 ^ 50" "y < 2 ^ 50" "z < 2 ^ 50"
  shows "\<exists>a N_N2.
    stoich_a binary64 (of_nat x) (of_nat y) (of_nat z) = a \<and>
    a = of_nat x + of_nat y / 4 - of_nat z / 2 \<and>
    product_moles binary64 (of_nat x) (of_nat y) (of_nat z) = (of_nat x, of_nat y / 2, N_N2) \<and>
    N_N2 = round53 (dec64 376 2 * a) \<and>
    atom_count (reactant_side (of_nat x) (of_nat y) (of_nat z) a) ''C''
      = atom_count (product_side (of_nat x) (of_nat y / 2) N_N2) ''C'' \<and>
    atom_count (reactant_side (of_nat x) (of_nat y) (of_nat z) a) ''H''
      = atom_count (product_side (of_nat x) (of_nat y / 2) N_N2) ''H'' \<and>
    atom_count (reactant_side (of_nat x) (of_nat y) (of_nat z) a) ''O''
      = atom_count (product_side (of_nat x) (of_nat y / 2) N_N2) ''O'' \<and>
    \<bar>atom_count (product_side (of_nat x) (of_nat y / 2) N_N2) ''N''
       - atom_count (reactant_side (of_nat x) (of_nat y) (of_nat z) a) ''N''\<bar>
      \<le> (\<bar>dec64 376 2 * a\<bar> + 376 / 100 * \<bar>a\<bar>) / 2 ^ 52"
proof -
  define a :: rat where "a = of_nat x + of_nat y / 4 - of_nat z / 2"
  define N_N2 where "N_N2 = round53 (dec64 376 2 * a)"
  have sa: "stoich_a binary64 (of_nat x) (of_nat y) (of_nat z) = a"
    unfolding a_def by (rule stoich_binary64_exact[OF assms])
  have "fmul binary64 (lit binary64 (376 / 100)) a = N_N2"
    by (simp only: lit_376) (simp add: binary64_def N_N2_def)
  then have pm: "product_moles binary64 (of_nat x) (of_nat y) (of_nat z)
      = (of_nat x, of_nat y / 2, N_N2)"
    by (simp only: product_moles_def Let_def sa stoich_binary64_exact(2)[OF assms])
  have C: "atom_count (reactant_side (of_nat x) (of_nat y) (of_nat z) a) ''C''
      = atom_count (product_side (of_nat x) (of_nat y / 2) N_N2) ''C''"
    and H: "atom_count (reactant_side (of_nat x) (of_nat y) (of_nat z) a) ''H''
      = atom_count (product_side (of_nat x) (of_nat y / 2) N_N2) ''H''"
    and O: "atom_count (reactant_side (of_nat x) (of_nat y) (of_nat z) a) ''O''
      = atom_count (product_side (of_nat x) (of_nat y / 2) N_N2) ''O''"
    by (simp_all add: atom_count_def reactant_side_def product_side_def CHO_def N2_def a_def)
  define B where "B = \<bar>dec64 376 2 * a\<bar> + 376 / 100 * \<bar>a\<bar>"
  define D where "D = N_N2 - 376 / 100 * a"
  have "atom_count (product_side (of_nat x) (of_nat y / 2) N_N2) ''N''
       - atom_count (reactant_side (of_nat x) (of_nat y) (of_nat z) a) ''N'' = 2 * D"
    by (simp add: atom_count_def reactant_side_def product_side_def CHO_def N2_def D_def)
  moreover have "\<bar>D\<bar> \<le> B / 2 ^ 53"
    unfolding N_N2_def B_def D_def by (rule N_N2_rounding)
  moreover have "2 * (B / 2 ^ 53) = B / 2 ^ 52" by simp
  ultimately have "\<bar>atom_count (product_side (of_nat x) (of_nat y / 2) N_N2) ''N''
       - atom_count (reactant_side (of_nat x) (of_nat y) (of_nat z) a) ''N''\<bar> \<le> B / 2 ^ 52"
    by (simp only: abs_mult)
  then have N: "\<bar>atom_count (product_side (of_nat x) (of_nat y / 2) N_N2) ''N''
       - atom_count (reactant_side (of_nat x) (of_nat y) (of_nat z) a) ''N''\<bar>
      \<le> (\<bar>dec64 376 2 * a\<bar> + 376 / 100 * \<bar>a\<bar>) / 2 ^ 52"
    unfolding B_def .
  from sa pm C H O N a_def N_N2_def show ?thesis by blast
qed

theorem stoichiometry_balance_binary64_witness:
  "(3::nat) < 2 ^ 50 \<and> (8::nat) < 2 ^ 50 \<and> (0::nat) < 2 ^ 50 \<and>
   stoich_a binary64 3 8 0 = 5 \<and>
   product_moles binary64 3 8 0 = (3, 4, dec64 18799999999999997 15) \<and>
   atom_count (reactant_side 3 8 0 5) ''C''
     = atom_count (product_side 3 4 (dec64 18799999999999997 15)) ''C'' \<and>
   atom_count (reactant_side 3 8 0 5) ''H''
     = atom_count (product_side 3 4 (dec64 18799999999999997 15)) ''H'' \<and>
   atom_count (reactant_side 3 8 0 5) ''O''
     = atom_count (product_side 3 4 (dec64 18799999999999997 15)) ''O'' \<and>
   \<bar>atom_count (product_side 3 4 (dec64 18799999999999997 15)) ''N''
      - atom_count (reactant_side 3 8 0 5) ''N''\<bar>
     \<le> (\<bar>dec64 376 2 * 5\<bar> + 376 / 100 * \<bar>5\<bar>) / 2 ^ 52"
proof -
  have b: "(3::nat) < 2 ^ 50" "(8::nat) < 2 ^ 50" "(0::nat) < 2 ^ 50" by simp_all
  from stoichiometry_balance_binary64[OF b] obtain a N_N2 where
    a: "stoich_a binary64 (of_nat 3) (of_nat 8) (of_nat 0) = a"
      "a = of_nat 3 + of_nat 8 / 4 - of_nat 0 / 2"
    and pm: "product_moles binary64 (of_nat 3) (of_nat 8) (of_nat 0)
      = (of_nat 3, of_nat 8 / 2, N_N2)"
    and bal: "atom_count (reactant_side (of_nat 3) (of_nat 8) (of_nat 0) a) ''C''
      = atom_count (product_side (of_nat 3) (of_nat 8 / 2) N_N2) ''C''"
      "atom_count (reactant_side (of_nat 3) (of_nat 8) (of_nat 0) a) ''H''
      = atom_count (product_side (of_nat 3) (of_nat 8 / 2) N_N2) ''H''"
      "atom_count (reactant_side (of_nat 3) (of_nat 8) (of_nat 0) a) ''O''
      = atom_count (product_side (of_nat 3) (of_nat 8 / 2) N_N2) ''O''"
      "\<bar>atom_count (product_side (of_nat 3) (of_nat 8 / 2) N_N2) ''N''
         - atom_count (reactant_side (of_nat 3) (of_nat 8) (of_nat 0) a) ''N''\<bar>
        \<le> (\<bar>dec64 376 2 * a\<bar> + 376 / 100 * \<bar>a\<bar>) / 2 ^ 52"
    by blast
  have a5: "a = 5" using a(2) by simp
  have n: "(of_nat 3 :: rat) = 3" "(of_nat 8 :: rat) = 8" "(of_nat 0 :: rat) = 0"
    "(8 / 2 :: rat) = 4"
    by simp_all
  from pm have "N_N2 = dec64 18799999999999997 15"
    unfolding n by (simp add: product_moles_propane)
  with a(1) pm bal b show ?thesis
    unfolding n a5 by blast
qed

text \<open>
  Claim C2. When \<open>heating_values\<close> returns, the lower heating value per unit mass is the
  enthalpy of the reactant mixture minus the enthalpy of the product mixture, divided by
  the mass fraction of the fuel in the reactants; both enthalpies are read at the reference
  temperature \<open>T_ref\<close> and the pressure \<open>one_atm\<close>, the first at the composition stored by
  \<open>set_equivalence_ratio(1.0, fuel, air)\<close>, the second at the product composition. This
  holds whatever the division does with the mass fraction, so for a positive one too.
\<close>

theorem lhv_mass_enthalpy_difference:
  assumes "heating_values A L fuel s = Inr ((lhv_mass, lhv_mole, hhv_mass, hhv_mole), s')"
  shows "\<exists>Xr k x y z Xp.
    ct_equivalence_ratio L (lit A 1) fuel air = Inr Xr \<and>
    ct_species_index L fuel = Inr k \<and>
    ct_n_atoms L fuel ''C'' = Inr x \<and> ct_n_atoms L fuel ''H'' = Inr y \<and>
    ct_n_atoms L fuel ''O'' = Inr z \<and>
    ct_mole_fractions L
      [(''CO2'', x), (''H2O'', fdiv A y (lit A 2)),
       (''N2'', fmul A (lit A (376 / 100)) (stoich_a A x y z))] = Inr Xp \<and>
    lhv_mass =
      fdiv A (fsub A (ct_enthalpy_mass L (T_ref A) (ct_one_atm L) Xr)
                     (ct_enthalpy_mass L (T_ref A) (ct_one_atm L) Xp))
             (ct_mass_fractions L Xr k)"
  using assms
  by (auto simp: heating_values_Inr set_reactants_Inr set_products_Inr enthalpy_mass_def
      mass_fraction_Y_def)

theorem lhv_mass_enthalpy_difference_witness:
  "heating_values binary64 notebook ''C3H8'' fresh =
     Inr ((dec64 4635214516570347 8, dec64 20439682963423462 7,
           dec64 503432932091338 7, dec64 22199640358624325 7),
          \<lparr>gas = products_C3H8, water = (dec64 29815 2, 1)\<rparr>) \<and>
   dec64 4635214516570347 8 =
     fdiv binary64
       (fsub binary64
          (ct_enthalpy_mass notebook (T_ref binary64) (ct_one_atm notebook) reactants_C3H8)
          (ct_enthalpy_mass notebook (T_ref binary64) (ct_one_atm notebook)
             (sol_X products_C3H8)))
       (ct_mass_fractions notebook reactants_C3H8 50)"
proof -
  have h: "heating_values binary64 notebook ''C3H8'' fresh =
     Inr ((dec64 4635214516570347 8, dec64 20439682963423462 7,
           dec64 503432932091338 7, dec64 22199640358624325 7),
          \<lparr>gas = products_C3H8, water = (dec64 29815 2, 1)\<rparr>)"
    by (rule heating_values_propane)
  from lhv_mass_enthalpy_difference[OF h] obtain Xr k x y z Xp where
    "ct_equivalence_ratio notebook (lit binary64 1) ''C3H8'' air = Inr Xr"
    "ct_species_index notebook ''C3H8'' = Inr k"
    "ct_n_atoms notebook ''C3H8'' ''C'' = Inr x" "ct_n_atoms notebook ''C3H8'' ''H'' = Inr y"
    "ct_n_atoms notebook ''C3H8'' ''O'' = Inr z"
    "ct_mole_fractions notebook
      [(''CO2'', x), (''H2O'', fdiv binary64 y (lit binary64 2)),
       (''N2'', fmul binary64 (lit binary64 (376 / 100)) (stoich_a binary64 x y z))] = Inr Xp"
    and lhv: "dec64 4635214516570347 8 =
      fdiv binary64
        (fsub binary64 (ct_enthalpy_mass notebook (T_ref binary64) (ct_one_atm notebook) Xr)
                       (ct_enthalpy_mass notebook (T_ref binary64) (ct_one_atm notebook) Xp))
        (ct_mass_fractions notebook Xr k)"
    by blast
  then have "Xr = reactants_C3H8" "k = 50" "x = 3" "y = 8" "z = 0"
    by (simp_all add: notebook_def)
  moreover from this have "Xp = sol_X products_C3H8"
    using \<open>ct_mole_fractions notebook _ = Inr Xp\<close> product_moles_propane
    by (simp add: notebook_def products_C3H8_def product_moles_eq)
  ultimately show ?thesis using h lhv by simp
qed

text \<open>
  Claim C3, as stated, says that \<open>hhv_mass - lhv_mass\<close> is exactly \<open>m_h2o * h_fg\<close>. For
  propane the function returns \<open>lhv_mass = 46352145.16570347\<close> and
  \<open>hhv_mass = 50343293.2091338\<close>, with \<open>m_h2o = 1.6341679570179235\<close> and
  \<open>h_fg = 2442312.0195756946\<close>. The difference of the two returned values is
  \<open>3991148.0434303284\<close> and the product is \<open>3991148.0434303316\<close>; the two differ whether
  the subtraction and the product are those of Python or those of the real numbers.
\<close>

theorem hhv_minus_lhv_not_exact:
  "heating_values binary64 notebook ''C3H8'' fresh =
     Inr ((dec64 4635214516570347 8, dec64 20439682963423462 7,
           dec64 503432932091338 7, dec64 22199640358624325 7),
          \<lparr>gas = products_C3H8, water = (dec64 29815 2, 1)\<rparr>) \<and>
   fdiv binary64 (fmul binary64 4 (dec64 1801528 5)) (dec64 4409652 5)
     = dec64 16341679570179235 16 \<and>
   fsub binary64 (dec64 (- 13423687980424305) 9) (- 15866000) = dec64 24423120195756946 10 \<and>
   fsub binary64 (dec64 503432932091338 7) (dec64 4635214516570347 8)
     \<noteq> fmul binary64 (dec64 16341679570179235 16) (dec64 24423120195756946 10) \<and>
   dec64 503432932091338 7 - dec64 4635214516570347 8
     \<noteq> dec64 16341679570179235 16 * dec64 24423120195756946 10"
  by (simp add: heating_values_propane propane_m_h2o_num propane_m_h2o propane_h_fg
      propane_hhv_minus_lhv propane_m_h_fg propane_results_differ propane_exact_difference)

text \<open>
  Claim C3, as amended. In binary64 the higher heating value is the rounded sum of the lower
  heating value and the rounded product \<open>m_h2o * h_fg\<close>, where \<open>m_h2o\<close> is the product
  water per mole of fuel times the molecular weight of water over that of the fuel and
  \<open>h_fg\<close> the enthalpy of vaporization. Hence \<open>hhv_mass - lhv_mass\<close> is \<open>m_h2o * h_fg\<close> up
  to the two roundings, each of relative size at most \<open>2\<^sup>-\<^sup>5\<^sup>3\<close>.
\<close>

theorem hhv_minus_lhv_rounding_bound:
  assumes "heating_values binary64 L fuel s = Inr ((lhv_mass, lhv_mole, hhv_mass, hhv_mole), s')"
  shows "\<exists>y kw k w0 w1 m_h2o h_fg.
    ct_n_atoms L fuel ''H'' = Inr y \<and> ct_species_index L ''H2O'' = Inr kw \<and>
    ct_species_index L fuel = Inr k \<and>
    ct_water_TX L (T_ref binary64) (lit binary64 0) = Inr w0 \<and>
    ct_water_TX L (T_ref binary64) (lit binary64 1) = Inr w1 \<and>
    m_h2o = fdiv binary64 (fmul binary64 (fdiv binary64 y (lit binary64 2))
               (ct_molecular_weights L kw)) (ct_molecular_weights L k) \<and>
    h_fg = fsub binary64 (ct_water_h L w1) (ct_water_h L w0) \<and>
    hhv_mass = round53 (lhv_mass + round53 (m_h2o * h_fg)) \<and>
    \<bar>hhv_mass - lhv_mass - m_h2o * h_fg\<bar>
      \<le> (\<bar>lhv_mass + round53 (m_h2o * h_fg)\<bar> + \<bar>m_h2o * h_fg\<bar>) / 2 ^ 53"
proof -
  from assms obtain y kw k w0 w1 where
    lib: "ct_n_atoms L fuel ''H'' = Inr y" "ct_species_index L ''H2O'' = Inr kw"
      "ct_species_index L fuel = Inr k"
      "ct_water_TX L (T_ref binary64) (lit binary64 0) = Inr w0"
      "ct_water_TX L (T_ref binary64) (lit binary64 1) = Inr w1"
    and hhv: "hhv_mass =
      fadd binary64 lhv_mass
        (fmul binary64
          (fdiv binary64 (fmul binary64 (fdiv binary64 y (lit binary64 2))
             (ct_molecular_weights L kw)) (ct_molecular_weights L k))
          (fsub binary64 (ct_water_h L w1) (ct_water_h L w0)))"
    by (auto simp: heating_values_Inr set_products_Inr vaporization_Inr)
  define m_h2o where "m_h2o = fdiv binary64 (fmul binary64 (fdiv binary64 y (lit binary64 2))
             (ct_molecular_weights L kw)) (ct_molecular_weights L k)"
  define h_fg where "h_fg = fsub binary64 (ct_water_h L w1) (ct_water_h L w0)"
  have eq: "hhv_mass = round53 (lhv_mass + round53 (m_h2o * h_fg))"
    unfolding hhv m_h2o_def h_fg_def by (simp add: binary64_def)
  have "\<bar>hhv_mass - lhv_mass - m_h2o * h_fg\<bar>
             \<le> (\<bar>lhv_mass + round53 (m_h2o * h_fg)\<bar> + \<bar>m_h2o * h_fg\<bar>) / 2 ^ 53"
    unfolding eq by (rule round53_add_mul_error)
  with lib eq m_h2o_def h_fg_def show ?thesis by blast
qed

theorem hhv_minus_lhv_rounding_bound_witness:
  "heating_values binary64 notebook ''C3H8'' fresh =
     Inr ((dec64 4635214516570347 8, dec64 20439682963423462 7,
           dec64 503432932091338 7, dec64 22199640358624325 7),
          \<lparr>gas = products_C3H8, water = (dec64 29815 2, 1)\<rparr>) \<and>
   \<bar>dec64 503432932091338 7 - dec64 4635214516570347 8
      - dec64 16341679570179235 16 * dec64 24423120195756946 10\<bar>
     \<le> (\<bar>dec64 4635214516570347 8
            + round53 (dec64 16341679570179235 16 * dec64 24423120195756946 10)\<bar>
         + \<bar>dec64 16341679570179235 16 * dec64 24423120195756946 10\<bar>) / 2 ^ 53"
proof -
  have h: "heating_values binary64 notebook ''C3H8'' fresh =
     Inr ((dec64 4635214516570347 8, dec64 20439682963423462 7,
           dec64 503432932091338 7, dec64 22199640358624325 7),
          \<lparr>gas = products_C3H8, water = (dec64 29815 2, 1)\<rparr>)"
    by (rule heating_values_propane)
  from hhv_minus_lhv_rounding_bound[OF h] obtain y kw k w0 w1 m_h2o h_fg where
    lib: "ct_n_atoms notebook ''C3H8'' ''H'' = Inr y" "ct_species_index notebook ''H2O'' = Inr kw"
      "ct_species_index notebook ''C3H8'' = Inr k"
      "ct_water_TX notebook (T_ref binary64) (lit binary64 0) = Inr w0"
      "ct_water_TX notebook (T_ref binary64) (lit binary64 1) = Inr w1"
    and m: "m_h2o = fdiv binary64 (fmul binary64 (fdiv binary64 y (lit binary64 2))
               (ct_molecular_weights notebook kw)) (ct_molecular_weights notebook k)"
    and hfg: "h_fg = fsub binary64 (ct_water_h notebook w1) (ct_water_h notebook w0)"
    and bound: "\<bar>dec64 503432932091338 7 - dec64 4635214516570347 8 - m_h2o * h_fg\<bar>
      \<le> (\<bar>dec64 4635214516570347 8 + round53 (m_h2o * h_fg)\<bar> + \<bar>m_h2o * h_fg\<bar>) / 2 ^ 53"
    by blast
  from lib have v: "y = 8" "kw = 5" "k = 50" "w0 = (dec64 29815 2, 0)" "w1 = (dec64 29815 2, 1)"
    by (auto simp: notebook_def T_ref_binary64 lit_0 lit_1)
  have "m_h2o = dec64 16341679570179235 16"
    unfolding m v by (simp add: lit_2 propane_N_H2O notebook_propane propane_m_h2o_num propane_m_h2o)
  moreover have "h_fg = dec64 24423120195756946 10"
    unfolding hfg v by (simp add: notebook_def propane_h_fg)
  ultimately show ?thesis using h bound by simp
qed

text \<open>
  Claim C4. The higher heating value is the lower heating value plus \<open>m_h2o * h_fg\<close>, and
  \<open>h_fg\<close> is the enthalpy the water object reports after \<open>water.TX = T_ref, 1.0\<close> (pure
  vapor) minus the one it reports after \<open>water.TX = T_ref, 0.0\<close> (pure liquid). The water
  object is separate from the gas mixture: its answers do not depend on the state of \<open>gas\<close>.
\<close>

theorem hhv_mass_adds_vaporization:
  assumes "heating_values A L fuel s = Inr ((lhv_mass, lhv_mole, hhv_mass, hhv_mole), s')"
  shows "\<exists>y kw k w0 w1.
    ct_n_atoms L fuel ''H'' = Inr y \<and> ct_species_index L ''H2O'' = Inr kw \<and>
    ct_species_index L fuel = Inr k \<and>
    ct_water_TX L (T_ref A) (lit A 0) = Inr w0 \<and>
    ct_water_TX L (T_ref A) (lit A 1) = Inr w1 \<and>
    hhv_mass =
      fadd A lhv_mass
        (fmul A (fdiv A (fmul A (fdiv A y (lit A 2)) (ct_molecular_weights L kw))
                        (ct_molecular_weights L k))
                (fsub A (ct_water_h L w1) (ct_water_h L w0)))"
  using assms
  by (auto simp: heating_values_Inr set_products_Inr vaporization_Inr)

theorem hhv_mass_adds_vaporization_witness:
  "heating_values binary64 notebook ''C3H8'' fresh =
     Inr ((dec64 4635214516570347 8, dec64 20439682963423462 7,
           dec64 503432932091338 7, dec64 22199640358624325 7),
          \<lparr>gas = products_C3H8, water = (dec64 29815 2, 1)\<rparr>) \<and>
   dec64 503432932091338 7 =
     fadd binary64 (dec64 4635214516570347 8)
       (fmul binary64
          (fdiv binary64 (fmul binary64 (fdiv binary64 8 (lit binary64 2))
             (ct_molecular_weights notebook 5)) (ct_molecular_weights notebook 50))
          (fsub binary64 (ct_water_h notebook (dec64 29815 2, 1))
                         (ct_water_h notebook (dec64 29815 2, 0))))"
proof -
  have h: "heating_values binary64 notebook ''C3H8'' fresh =
     Inr ((dec64 4635214516570347 8, dec64 20439682963423462 7,
           dec64 503432932091338 7, dec64 22199640358624325 7),
          \<lparr>gas = products_C3H8, water = (dec64 29815 2, 1)\<rparr>)"
    by (rule heating_values_propane)
  from hhv_mass_adds_vaporization[OF h] obtain y kw k w0 w1 where
    lib: "ct_n_atoms notebook ''C3H8'' ''H'' = Inr y" "ct_species_index notebook ''H2O'' = Inr kw"
      "ct_species_index notebook ''C3H8'' = Inr k"
      "ct_water_TX notebook (T_ref binary64) (lit binary64 0) = Inr w0"
      "ct_water_TX notebook (T_ref binary64) (lit binary64 1) = Inr w1"
    and hhv: "dec64 503432932091338 7 =
      fadd binary64 (dec64 4635214516570347 8)
        (fmul binary64
          (fdiv binary64 (fmul binary64 (fdiv binary64 y (lit binary64 2))
             (ct_molecular_weights notebook kw)) (ct_molecular_weights notebook k))
          (fsub binary64 (ct_water_h notebook w1) (ct_water_h notebook w0)))"
    by blast
  from lib have "y = 8" "kw = 5" "k = 50" "w0 = (dec64 29815 2, 0)" "w1 = (dec64 29815 2, 1)"
    by (auto simp: notebook_def T_ref_binary64 lit_0 lit_1)
  with h hhv show ?thesis by simp
qed

text \<open>
  Claim C5. The worked example for propane, with the numbers the notebook displays: the
  reactant enthalpy \<open>-142083.21261478376\<close>, the product enthalpy \<open>-2939189.2483540904\<close>,
  the fuel mass fraction \<open>0.06034469442007445\<close>, four moles of water per mole of fuel, the
  molecular weights \<open>18.01528\<close> and \<open>44.09652\<close> of GRI-Mech 3.0 (they give the displayed
  \<open>m_h2o = 1.6341679570179235\<close>), and \<open>h_fg = 2442.3120195756946\<close> kJ/kg.
  Cell 10 computes \<open>46352.14516570347\<close>, which is within one half of 46352, and cell 15
  computes \<open>50343.2932091338\<close>, which is within one half of 50343; these are the numbers
  the notebook displays.
\<close>

theorem propane_worked_example:
  "lhv_mass_cell binary64 (dec64 (- 14208321261478376) 11) (dec64 (- 29391892483540904) 10)
      (dec64 6034469442007445 17) = dec64 4635214516570347 11 \<and>
   \<bar>dec64 4635214516570347 11 - 46352\<bar> < 1 / 2 \<and>
   m_h2o_cell binary64 4 (dec64 1801528 5) (dec64 4409652 5) = dec64 16341679570179235 16 \<and>
   hhv_mass_cell binary64 (dec64 4635214516570347 11) (dec64 16341679570179235 16)
      (dec64 24423120195756946 13) = dec64 503432932091338 10 \<and>
   \<bar>dec64 503432932091338 10 - 50343\<bar> < 1 / 2"
proof -
  have "lhv_mass_cell binary64 (dec64 (- 14208321261478376) 11)
      (dec64 (- 29391892483540904) 10) (dec64 6034469442007445 17) = dec64 4635214516570347 11"
    by (simp add: lhv_mass_cell_def lit_1000 propane_dh propane_lhv_mass cell10_lhv_kJ)
  moreover have "\<bar>dec64 4635214516570347 11 - 46352\<bar> < 1 / 2"
    by (simp add: val_46352_14516570347)
  moreover have "m_h2o_cell binary64 4 (dec64 1801528 5) (dec64 4409652 5)
      = dec64 16341679570179235 16"
    by (simp add: m_h2o_cell_def propane_m_h2o_num propane_m_h2o)
  moreover have "hhv_mass_cell binary64 (dec64 4635214516570347 11)
      (dec64 16341679570179235 16) (dec64 24423120195756946 13) = dec64 503432932091338 10"
    by (simp add: hhv_mass_cell_def cell15_m_h_fg cell15_hhv_kJ)
  moreover have "\<bar>dec64 503432932091338 10 - 50343\<bar> < 1 / 2"
    by (simp add: val_50343_2932091338)
  ultimately show ?thesis by blast
qed

text \<open>
  Claim C6. When \<open>heating_values\<close> returns, the gas went through the reactant state
  \<open>g1\<close>, set at \<open>T_ref\<close> and \<open>one_atm\<close>, and the step that stores the product composition
  took it from \<open>g1\<close> to the final state without changing temperature or pressure. Both
  enthalpies are therefore read at \<open>T_ref\<close> and \<open>one_atm\<close>.
\<close>

theorem products_keep_reference_T_P:
  assumes "heating_values A L fuel s = Inr (r, s')"
  shows "\<exists>g1 n.
    set_reactants A L fuel (gas s) = Inr g1 \<and>
    set_products A L fuel g1 = Inr (n, gas s') \<and>
    sol_T g1 = T_ref A \<and> sol_P g1 = ct_one_atm L \<and>
    sol_T (gas s') = sol_T g1 \<and> sol_P (gas s') = sol_P g1 \<and>
    enthalpy_mass L g1 = ct_enthalpy_mass L (T_ref A) (ct_one_atm L) (sol_X g1) \<and>
    enthalpy_mass L (gas s') = ct_enthalpy_mass L (T_ref A) (ct_one_atm L) (sol_X (gas s'))"
proof -
  obtain a b c d where r: "r = (a, b, c, d)" by (cases r)
  from assms[unfolded r] obtain g1 n g2 w where
    g1: "set_reactants A L fuel (gas s) = Inr g1" and
    g2: "set_products A L fuel g1 = Inr (n, g2)" and s': "s' = \<lparr>gas = g2, water = w\<rparr>"
    unfolding heating_values_Inr by blast
  from g1 have "sol_T g1 = T_ref A" "sol_P g1 = ct_one_atm L"
    by (auto simp: set_reactants_Inr)
  moreover from g2 have "sol_T g2 = sol_T g1" "sol_P g2 = sol_P g1"
    by (auto simp: set_products_Inr)
  ultimately show ?thesis
    using g1 g2 by (simp add: s' enthalpy_mass_def)
qed

theorem products_keep_reference_T_P_witness:
  "heating_values binary64 notebook ''C3H8'' fresh =
     Inr ((dec64 4635214516570347 8, dec64 20439682963423462 7,
           dec64 503432932091338 7, dec64 22199640358624325 7),
          \<lparr>gas = products_C3H8, water = (dec64 29815 2, 1)\<rparr>) \<and>
   set_reactants binary64 notebook ''C3H8'' (gas fresh) = Inr reactants_state \<and>
   set_products binary64 notebook ''C3H8'' reactants_state = Inr (4, products_C3H8) \<and>
   sol_T reactants_state = dec64 29815 2 \<and> sol_P reactants_state = 101325 \<and>
   sol_T products_C3H8 = dec64 29815 2 \<and> sol_P products_C3H8 = 101325 \<and>
   sol_T (gas fresh) = 300"
proof -
  have h: "heating_values binary64 notebook ''C3H8'' fresh =
     Inr ((dec64 4635214516570347 8, dec64 20439682963423462 7,
           dec64 503432932091338 7, dec64 22199640358624325 7),
          \<lparr>gas = products_C3H8, water = (dec64 29815 2, 1)\<rparr>)"
    by (rule heating_values_propane)
  from products_keep_reference_T_P[OF h] obtain g1 n where
    g1: "set_reactants binary64 notebook ''C3H8'' (gas fresh) = Inr g1"
    and g2: "set_products binary64 notebook ''C3H8'' g1 = Inr (n, products_C3H8)"
    and T: "sol_T g1 = T_ref binary64" "sol_T products_C3H8 = sol_T g1"
    and P: "sol_P g1 = ct_one_atm notebook" "sol_P products_C3H8 = sol_P g1"
    by auto
  from g1 have eq: "g1 = reactants_state" by (simp add: set_reactants_propane)
  with g2 have "n = 4" by (simp add: set_products_propane)
  with h g1 g2 T P eq show ?thesis
    by (simp add: T_ref_binary64 notebook_def fresh_def)
qed

text \<open>
  Claim C7. \<open>heating_values\<close> returns four values, in the order \<open>lhv_mass\<close>,
  \<open>lhv_mole\<close>, \<open>hhv_mass\<close>, \<open>hhv_mole\<close>, and each value per mole is the value per mass
  times the molecular weight of the fuel.
\<close>

theorem mole_values_scale_by_molecular_weight:
  assumes "heating_values A L fuel s = Inr ((lhv_mass, lhv_mole, hhv_mass, hhv_mole), s')"
  shows "\<exists>k. ct_species_index L fuel = Inr k \<and>
    lhv_mole = fmul A lhv_mass (ct_molecular_weights L k) \<and>
    hhv_mole = fmul A hhv_mass (ct_molecular_weights L k)"
  using assms by (auto simp: heating_values_Inr)

theorem mole_values_scale_by_molecular_weight_witness:
  "heating_values binary64 notebook ''C3H8'' fresh =
     Inr ((dec64 4635214516570347 8, dec64 20439682963423462 7,
           dec64 503432932091338 7, dec64 22199640358624325 7),
          \<lparr>gas = products_C3H8, water = (dec64 29815 2, 1)\<rparr>) \<and>
   ct_species_index notebook ''C3H8'' = Inr 50 \<and>
   dec64 20439682963423462 7 =
     fmul binary64 (dec64 4635214516570347 8) (ct_molecular_weights notebook 50) \<and>
   dec64 22199640358624325 7 =
     fmul binary64 (dec64 503432932091338 7) (ct_molecular_weights notebook 50)"
proof -
  have h: "heating_values binary64 notebook ''C3H8'' fresh =
     Inr ((dec64 4635214516570347 8, dec64 20439682963423462 7,
           dec64 503432932091338 7, dec64 22199640358624325 7),
          \<lparr>gas = products_C3H8, water = (dec64 29815 2, 1)\<rparr>)"
    by (rule heating_values_propane)
  from mole_values_scale_by_molecular_weight[OF h] obtain k where
    k: "ct_species_index notebook ''C3H8'' = Inr k"
    and eqs: "dec64 20439682963423462 7 =
        fmul binary64 (dec64 4635214516570347 8) (ct_molecular_weights notebook k)"
      "dec64 22199640358624325 7 =
        fmul binary64 (dec64 503432932091338 7) (ct_molecular_weights notebook k)"
    by blast
  from k have "k = 50" by (simp add: notebook_propane)
  with h k eqs show ?thesis by simp
qed

text \<open>
  Claim C8. \<open>heating_values\<close> validates nothing and handles no exception. For any fuel
  name, any library and any state, it ends with the exception \<open>e\<close> exactly when the first
  of its library calls that raises, raises \<open>e\<close>: the calls are, in this order,
  \<open>set_equivalence_ratio\<close>, \<open>species_index(fuel)\<close>, \<open>n_atoms\<close> for carbon, hydrogen and
  oxygen, the setting of the product composition, the two settings of the water state, and
  \<open>species_index('H2O')\<close>. So an exception of the library reaches the caller as it is, and
  the function raises none of its own.
\<close>

theorem library_errors_propagate:
  "heating_values A L fuel s = Inl e \<longleftrightarrow>
   ct_equivalence_ratio L (lit A 1) fuel air = Inl e \<or>
   (\<exists>Xr. ct_equivalence_ratio L (lit A 1) fuel air = Inr Xr \<and>
     (ct_species_index L fuel = Inl e \<or>
      (\<exists>k. ct_species_index L fuel = Inr k \<and>
        (ct_n_atoms L fuel ''C'' = Inl e \<or>
         (\<exists>x. ct_n_atoms L fuel ''C'' = Inr x \<and>
           (ct_n_atoms L fuel ''H'' = Inl e \<or>
            (\<exists>y. ct_n_atoms L fuel ''H'' = Inr y \<and>
              (ct_n_atoms L fuel ''O'' = Inl e \<or>
               (\<exists>z. ct_n_atoms L fuel ''O'' = Inr z \<and>
                 (ct_mole_fractions L
                    [(''CO2'', x), (''H2O'', fdiv A y (lit A 2)),
                     (''N2'', fmul A (lit A (376 / 100)) (stoich_a A x y z))] = Inl e \<or>
                  (\<exists>Xp. ct_mole_fractions L
                    [(''CO2'', x), (''H2O'', fdiv A y (lit A 2)),
                     (''N2'', fmul A (lit A (376 / 100)) (stoich_a A x y z))] = Inr Xp \<and>
                    (ct_water_TX L (T_ref A) (lit A 0) = Inl e \<or>
                     (\<exists>w0. ct_water_TX L (T_ref A) (lit A 0) = Inr w0 \<and>
                       (ct_water_TX L (T_ref A) (lit A 1) = Inl e \<or>
                        (\<exists>w1. ct_water_TX L (T_ref A) (lit A 1) = Inr w1 \<and>
                           ct_species_index L ''H2O'' = Inl e)))))))))))))))"
  unfolding heating_values_Inl set_reactants_Inl set_reactants_Inr set_products_Inl
    set_products_Inr vaporization_Inl vaporization_Inr
  by (auto; blast)

theorem library_errors_propagate_witness:
  "ct_equivalence_ratio notebook (lit binary64 1) ''C4H10'' air = Inl (CanteraError ''C4H10'') \<and>
   heating_values binary64 notebook ''C4H10'' fresh = Inl (CanteraError ''C4H10'')"
proof -
  have e: "ct_equivalence_ratio notebook (lit binary64 1) ''C4H10'' air
      = Inl (CanteraError ''C4H10'')"
    by (simp add: notebook_def)
  then have "heating_values binary64 notebook ''C4H10'' fresh = Inl (CanteraError ''C4H10'')"
    using library_errors_propagate[of binary64 notebook "''C4H10''" fresh "CanteraError ''C4H10''"]
    by blast
  with e show ?thesis by simp
qed

text \<open>
  Claim C9. The outcome of \<open>heating_values\<close> (the four values, or the exception, and the
  state left behind) is the same from any two states of the globals: temperature, pressure
  and composition of the gas are all set before anything is read.
\<close>

theorem result_independent_of_initial_state:
  "heating_values A L fuel s1 = heating_values A L fuel s2"
  by (simp add: heating_values_def set_reactants_indep[of A L fuel "gas s1" "gas s2"])

text \<open>
  Claim C10. When \<open>heating_values\<close> returns, the gas is in the product state: the
  composition stored from \<open>CO2: x\<close>, \<open>H2O: y/2\<close>, \<open>N2: 3.76 a\<close> at \<open>T_ref\<close> and
  \<open>one_atm\<close>. The state before the call is not put back: the state after the call equals
  the state before it only when the gas was in that product state already.
\<close>

theorem gas_left_in_product_state:
  assumes "heating_values A L fuel s = Inr (r, s')"
  shows "\<exists>x y z Xp.
    ct_n_atoms L fuel ''C'' = Inr x \<and> ct_n_atoms L fuel ''H'' = Inr y \<and>
    ct_n_atoms L fuel ''O'' = Inr z \<and>
    ct_mole_fractions L
      [(''CO2'', x), (''H2O'', fdiv A y (lit A 2)),
       (''N2'', fmul A (lit A (376 / 100)) (stoich_a A x y z))] = Inr Xp \<and>
    gas s' = \<lparr>sol_T = T_ref A, sol_P = ct_one_atm L, sol_X = Xp\<rparr> \<and>
    (gas s' = gas s) = (gas s = \<lparr>sol_T = T_ref A, sol_P = ct_one_atm L, sol_X = Xp\<rparr>)"
proof -
  obtain a b c d where r: "r = (a, b, c, d)" by (cases r)
  show ?thesis
    using assms unfolding r
    by (auto simp: heating_values_Inr set_reactants_Inr set_products_Inr)
qed

theorem gas_left_in_product_state_witness:
  "heating_values binary64 notebook ''C3H8'' fresh =
     Inr ((dec64 4635214516570347 8, dec64 20439682963423462 7,
           dec64 503432932091338 7, dec64 22199640358624325 7),
          \<lparr>gas = products_C3H8, water = (dec64 29815 2, 1)\<rparr>) \<and>
   products_C3H8 =
     \<lparr>sol_T = T_ref binary64, sol_P = ct_one_atm notebook,
      sol_X = [(''CO2'', 3), (''H2O'', 4), (''N2'', dec64 18799999999999997 15)]\<rparr> \<and>
   products_C3H8 \<noteq> gas fresh"
proof -
  have h: "heating_values binary64 notebook ''C3H8'' fresh =
     Inr ((dec64 4635214516570347 8, dec64 20439682963423462 7,
           dec64 503432932091338 7, dec64 22199640358624325 7),
          \<lparr>gas = products_C3H8, water = (dec64 29815 2, 1)\<rparr>)"
    by (rule heating_values_propane)
  from gas_left_in_product_state[OF h] obtain Xp where
    "products_C3H8 = \<lparr>sol_T = T_ref binary64, sol_P = ct_one_atm notebook, sol_X = Xp\<rparr>"
    and ne: "(products_C3H8 = gas fresh)
       = (gas fresh = \<lparr>sol_T = T_ref binary64, sol_P = ct_one_atm notebook, sol_X = Xp\<rparr>)"
    by auto
  then have "products_C3H8 =
     \<lparr>sol_T = T_ref binary64, sol_P = ct_one_atm notebook,
      sol_X = [(''CO2'', 3), (''H2O'', 4), (''N2'', dec64 18799999999999997 15)]\<rparr>"
    by (simp add: products_C3H8_def)
  moreover have "products_C3H8 \<noteq> gas fresh"
    by (simp add: products_C3H8_def fresh_def)
  ultimately show ?thesis using h by simp
qed

end
